theory Spec2Isabelle
  imports Main "HOL-Library.Sublist"
begin

section \<open>Python values\<close>

text \<open>
  The module \<open>tank/folder/folder_types/entity.py\<close> works on Shotgun records, which are
  Python dictionaries from field names to values. A value is \<open>None\<close>, a scalar, a list, a
  dictionary (an entity link is a dictionary with the keys \<open>type\<close> and \<open>id\<close>) or, inside
  the value list of a filter condition, a \<open>FilterExpressionToken\<close> object.

  The class \<open>FilterExpressionToken\<close> lives in \<open>expression_tokens.py\<close>; this module only
  calls its methods \<open>get_sg_data_key()\<close> and \<open>get_entity_type()\<close>, so a token is the record
  of what these two methods return.
\<close>

record token =
  get_sg_data_key :: string
  get_entity_type :: string

datatype pyval =
    PNone
  | PBool bool
  | PInt int
  | PStr string
  | PList "pyval list"
  | PDict "(string \<times> pyval) list"
  | PToken token

text \<open>
  A dictionary is an association list in insertion order with one entry per key.
  \<open>dict_set\<close> is \<open>d[k] = v\<close>: an existing key keeps its position, a new key goes to the
  end. \<open>dict_update\<close> is \<open>d.update(e)\<close>.
\<close>

type_synonym pydict = "(string \<times> pyval) list"

definition dict_get :: "('k \<times> 'v) list \<Rightarrow> 'k \<Rightarrow> 'v option" where
  "dict_get d k = map_of d k"

definition dict_contains :: "('k \<times> 'v) list \<Rightarrow> 'k \<Rightarrow> bool" where
  "dict_contains d k = (map_of d k \<noteq> None)"

fun dict_set :: "('k \<times> 'v) list \<Rightarrow> 'k \<Rightarrow> 'v \<Rightarrow> ('k \<times> 'v) list" where
  "dict_set [] k v = [(k, v)]"
| "dict_set ((k', v') # d) k v =
     (if k' = k then (k, v) # d else (k', v') # dict_set d k v)"

definition dict_update :: "('k \<times> 'v) list \<Rightarrow> ('k \<times> 'v) list \<Rightarrow> ('k \<times> 'v) list" where
  "dict_update d e = fold (\<lambda>(k, v) acc. dict_set acc k v) e d"

text \<open>
  A filter is the dictionary \<open>{"logical_operator": ..., "conditions": [...]}\<close>, each
  condition the dictionary \<open>{"path": ..., "relation": ..., "values": [...]}\<close>.
\<close>

record condition =
  cond_path :: string
  cond_relation :: string
  cond_values :: "pyval list"

record sg_filter =
  logical_operator :: string
  conditions :: "condition list"

text \<open>
  The exceptions the module raises or lets through. \<open>TankError\<close> is raised with four
  different messages (lines 264 and 333, 430, 570, 594); each is a constructor of its own.
  \<open>TankError_Other\<close> stands for a \<open>TankError\<close> raised by a collaborator.
\<close>

datatype error =
    TankError_NoCurrentUser
  | TankError_NotFound string pyval
  | TankError_MissingFromPath string
  | TankError_CannotFind string pyval sg_filter
  | TankError_Other
  | EntityLinkTypeMismatch
  | KeyError string
  | TypeError
  | AttributeError

text \<open>
  \<open>fields.issubset(x)\<close> for a set of strings \<open>fields\<close>: it iterates \<open>x\<close>, so a dictionary
  gives its keys, a list its elements (which must be hashable) and a string its
  characters; any other value is not iterable.
\<close>

fun unhashable :: "pyval \<Rightarrow> bool" where
  "unhashable (PList _) = True"
| "unhashable (PDict _) = True"
| "unhashable _ = False"

fun py_issubset :: "string set \<Rightarrow> pyval \<Rightarrow> error + bool" where
  "py_issubset flds (PDict d) = Inr (flds \<subseteq> fst ` set d)"
| "py_issubset flds (PList l) =
     (if list_ex unhashable l then Inl TypeError else Inr (PStr ` flds \<subseteq> set l))"
| "py_issubset flds (PStr s) = Inr (flds \<subseteq> (\<lambda>c. [c]) ` set s)"
| "py_issubset flds _ = Inl TypeError"

text \<open>\<open>x[k]\<close> for a string key \<open>k\<close>, and \<open>x.get(k)\<close>.\<close>

fun py_getitem :: "pyval \<Rightarrow> string \<Rightarrow> error + pyval" where
  "py_getitem (PDict d) k = (case dict_get d k of None \<Rightarrow> Inl (KeyError k) | Some v \<Rightarrow> Inr v)"
| "py_getitem _ k = Inl TypeError"

fun py_get :: "pyval \<Rightarrow> string \<Rightarrow> error + pyval" where
  "py_get (PDict d) k = (case dict_get d k of None \<Rightarrow> Inr PNone | Some v \<Rightarrow> Inr v)"
| "py_get _ k = Inl AttributeError"

definition getitem :: "pydict \<Rightarrow> string \<Rightarrow> error + pyval" where
  "getitem d k = (case dict_get d k of None \<Rightarrow> Inl (KeyError k) | Some v \<Rightarrow> Inr v)"

section \<open>Collaborators\<close>

text \<open>
  The Shotgun connection. \<open>find\<close> returns a list of records, \<open>find_one\<close> a record or
  \<open>None\<close>. The filter passed is either a filter dictionary or the list form
  \<open>[["id", "is", my_id]]\<close>; the field list is \<open>list(fields)\<close> of a set, so it is kept as a
  set, and is absent in the call of line 429. The connection may answer differently from
  one call to the next: its answer depends on the calls made so far, which are the first
  argument. The functions below take the calls made so far and return them extended.
\<close>

datatype sg_query = DictFilters sg_filter | ListFilters "pyval list list"

datatype sg_call =
    Find string sg_filter "string set"
  | FindOne string sg_query "string set option"

record shotgun =
  sg_find :: "sg_call list \<Rightarrow> string \<Rightarrow> sg_filter \<Rightarrow> string set \<Rightarrow> pydict list"
  sg_find_one :: "sg_call list \<Rightarrow> string \<Rightarrow> sg_query \<Rightarrow> string set option \<Rightarrow> pydict option"

text \<open>
  What the module imports from the rest of the package:
  \<open>shotgun_entity.get_sg_entity_name_field\<close>, \<open>login.get_current_user(tk)\<close> (its result),
  \<open>util.resolve_shotgun_filters\<close>, \<open>os.path.sep\<close> and \<open>os.path.join\<close>.
\<close>

record env =
  get_sg_entity_name_field :: "pyval \<Rightarrow> string"
  get_current_user :: "pydict option"
  resolve_shotgun_filters :: "sg_filter \<Rightarrow> pydict \<Rightarrow> error + sg_filter"
  os_path_sep :: string
  os_path_join :: "string \<Rightarrow> string \<Rightarrow> string"

section \<open>The Entity folder\<close>

text \<open>
  An \<open>Entity\<close> object: the attributes set by \<open>__init__\<close>, what its \<open>EntityExpression\<close>
  answers (\<open>get_shotgun_fields\<close>, \<open>get_shotgun_link_fields\<close>, \<open>generate_name\<close>), the key
  \<open>FilterExpressionToken.sg_data_key_for_folder_obj(self)\<close>, the overridable
  \<open>_get_additional_sg_fields\<close>, and of its template path the keys and \<open>apply_fields\<close>.
\<close>

record template_key =
  shotgun_entity_type :: "string option"
  shotgun_field_name :: "string option"

record entity_node =
  entity_type :: string
  sg_data_key_for_folder_obj :: string
  get_shotgun_fields :: "string set"
  get_shotgun_link_fields :: "string list"
  generate_name :: "pyval \<Rightarrow> error + string"
  get_additional_sg_fields :: "string list"
  filters :: sg_filter
  create_with_parent :: bool
  config_metadata :: pyval
  template_path_keys :: "(string \<times> template_key) list"
  apply_fields :: "pydict \<Rightarrow> error + string"

subsection \<open>\<open>_should_item_be_processed\<close>\<close>

text \<open>
  Lines 148 to 158. The base class implementation \<open>Folder._should_item_be_processed\<close> is
  the parameter \<open>super_should_item_be_processed\<close>.
\<close>

definition should_item_be_processed ::
  "('e \<Rightarrow> bool \<Rightarrow> bool) \<Rightarrow> entity_node \<Rightarrow> 'e \<Rightarrow> bool \<Rightarrow> bool" where
  "should_item_be_processed super_should_item_be_processed self engine_str is_primary =
     (if is_primary = False \<and> create_with_parent self = False then False
      else super_should_item_be_processed engine_str is_primary)"

subsection \<open>The fields to retrieve and the current user\<close>

text \<open>
  The field set computed at lines 238 to 247, 353 to 363 and 579 to 589: the fields of
  the name expression, its link fields, the name field of the entity type and the
  additional fields.
\<close>

definition fields_to_retrieve :: "env \<Rightarrow> entity_node \<Rightarrow> string set" where
  "fields_to_retrieve e self =
     get_shotgun_fields self \<union> set (get_shotgun_link_fields self)
       \<union> {get_sg_entity_name_field e (PStr (entity_type self))}
       \<union> set (get_additional_sg_fields self)"

text \<open>
  Lines 253 to 269, in \<open>__get_entities\<close>: a HumanUser level with no entry gets the current
  user.
\<close>

definition add_current_user :: "env \<Rightarrow> entity_node \<Rightarrow> pydict \<Rightarrow> error + pydict" where
  "add_current_user e self tokens =
     (if entity_type self = ''HumanUser'' \<and> \<not> dict_contains tokens (sg_data_key_for_folder_obj self)
      then (case get_current_user e of
              None \<Rightarrow> Inl TankError_NoCurrentUser
            | Some user \<Rightarrow>
                if user = [] then Inl TankError_NoCurrentUser
                else Inr (dict_set tokens (sg_data_key_for_folder_obj self) (PDict user)))
      else Inr tokens)"

subsection \<open>Objects and the store\<close>

text \<open>
  \<open>extract_shotgun_data_upwards\<close> and \<open>_create_folders_impl\<close> copy the working map they
  receive and then change the copy in place (\<open>update\<close>, \<open>extend\<close>, item assignment), so
  the objects a working map refers to are kept in an explicit store. A working map is a
  dictionary whose values are references to the objects of its levels: a list of keys
  with addresses. The store holds the value of each object; the methods never write into
  a value nested inside a level, so what a level holds is a plain value. \<open>next_free\<close> is
  the first address never allocated.
\<close>

type_synonym addr = nat

record store =
  cells :: "addr \<Rightarrow> pyval"
  next_free :: addr

type_synonym sg_data_ref = "(string \<times> addr) list"

definition store_read :: "store \<Rightarrow> sg_data_ref \<Rightarrow> pydict" where
  "store_read H m = map (\<lambda>(k, a). (k, cells H a)) m"

text \<open>A new object, which gets the address \<open>next_free\<close>, and a write to an object.\<close>

definition alloc :: "store \<Rightarrow> pyval \<Rightarrow> store" where
  "alloc H v = H\<lparr>cells := (cells H)(next_free H := v), next_free := Suc (next_free H)\<rparr>"

definition store_write :: "store \<Rightarrow> addr \<Rightarrow> pyval \<Rightarrow> store" where
  "store_write H a v = H\<lparr>cells := (cells H)(a := v)\<rparr>"

text \<open>
  \<open>copy.deepcopy(sg_data)\<close>: every level gets a new object with the same value. An
  object met a second time is not copied again, the copy made the first time is used
  (\<open>memo\<close> is the memo dictionary of \<open>deepcopy\<close>, from the addresses copied to their
  copies), so two levels that share an object share its copy.
\<close>

fun deepcopy :: "store \<Rightarrow> (addr \<times> addr) list \<Rightarrow> sg_data_ref \<Rightarrow> store \<times> sg_data_ref" where
  "deepcopy H memo [] = (H, [])"
| "deepcopy H memo ((k, a) # m) =
     (case map_of memo a of
        Some copied \<Rightarrow>
          (case deepcopy H memo m of (H', m') \<Rightarrow> (H', (k, copied) # m'))
      | None \<Rightarrow>
          (case deepcopy (H\<lparr>cells := (cells H)(next_free H := cells H a),
                            next_free := Suc (next_free H)\<rparr>)
                  ((a, next_free H) # memo) m of
             (H', m') \<Rightarrow> (H', (k, next_free H) # m')))"

subsection \<open>\<open>extract_shotgun_data_upwards\<close>\<close>

text \<open>
  Lines 322 to 338, on the copy \<open>tokens\<close> of the working map: a HumanUser level with no
  entry gets the current user, a new object.
\<close>

definition add_current_user_in_store ::
  "env \<Rightarrow> entity_node \<Rightarrow> sg_data_ref \<Rightarrow> store \<Rightarrow> error + sg_data_ref \<times> store" where
  "add_current_user_in_store e self tokens H =
     (if entity_type self = ''HumanUser'' \<and> \<not> dict_contains tokens (sg_data_key_for_folder_obj self)
      then (case get_current_user e of
              None \<Rightarrow> Inl TankError_NoCurrentUser
            | Some user \<Rightarrow>
                if user = [] then Inl TankError_NoCurrentUser
                else Inr (dict_set tokens (sg_data_key_for_folder_obj self) (next_free H),
                          alloc H (PDict user)))
      else Inr (tokens, H))"

text \<open>
  Lines 365 to 400: the loop over \<open>self._filters["conditions"]\<close>. Its state is the triple
  of \<open>fields\<close>, \<open>link_map\<close> and \<open>filters\<close>; \<open>classify_condition\<close> is one pass of the loop
  body. \<open>link_map\<close> is a dictionary from paths to tokens, kept in insertion order.
\<close>

type_synonym classified = "string set \<times> (string \<times> token) list \<times> condition list"

definition classify_condition :: "classified \<Rightarrow> condition \<Rightarrow> classified" where
  "classify_condition st condition =
     (case st of (flds, link_map, fltrs) \<Rightarrow>
       (case cond_values condition of
          [] \<Rightarrow> (flds, link_map, fltrs)
        | v # _ \<Rightarrow>
            if prefix ''$FROM$'' (cond_path condition) then (flds, link_map, fltrs)
            else (case v of
                    PToken t \<Rightarrow>
                      (insert (cond_path condition) flds,
                       dict_set link_map (cond_path condition) t, fltrs)
                  | _ \<Rightarrow> (flds, link_map, fltrs @ [condition]))))"

definition classify_conditions :: "string set \<Rightarrow> condition list \<Rightarrow> classified" where
  "classify_conditions flds cs = foldl classify_condition (flds, [], []) cs"

text \<open>
  Lines 403 to 436: when the record of this level lacks a field, it is fetched by id
  together with the plain filters; a lookup that returns nothing is followed by the
  lookup by id alone, which decides between the two exceptions. The record fetched is
  merged into the object of this level.
\<close>

definition id_condition :: "pyval \<Rightarrow> condition" where
  "id_condition my_id = \<lparr>cond_path = ''id'', cond_relation = ''is'', cond_values = [my_id]\<rparr>"

definition id_filter_dict :: "condition list \<Rightarrow> pyval \<Rightarrow> sg_query" where
  "id_filter_dict fltrs my_id =
     DictFilters \<lparr>logical_operator = ''and'', conditions = fltrs @ [id_condition my_id]\<rparr>"

definition bare_id_filter :: "pyval \<Rightarrow> sg_query" where
  "bare_id_filter my_id = ListFilters [[PStr ''id'', PStr ''is'', my_id]]"

definition missing_or_filtered ::
  "shotgun \<Rightarrow> entity_node \<Rightarrow> sg_call list \<Rightarrow> pyval \<Rightarrow> error" where
  "missing_or_filtered sg self h my_id =
     (if sg_find_one sg h (entity_type self) (bare_id_filter my_id) None = None
      then TankError_NotFound (entity_type self) my_id
      else EntityLinkTypeMismatch)"

definition fetch_missing_fields ::
  "shotgun \<Rightarrow> entity_node \<Rightarrow> string set \<Rightarrow> condition list \<Rightarrow> sg_data_ref \<Rightarrow> store
     \<Rightarrow> sg_call list \<Rightarrow> error + store \<times> sg_call list" where
  "fetch_missing_fields sg self flds fltrs tokens H h =
     (case dict_get tokens (sg_data_key_for_folder_obj self) of
        None \<Rightarrow> Inl (KeyError (sg_data_key_for_folder_obj self))
      | Some a \<Rightarrow>
         (case py_issubset flds (cells H a) of
            Inl err \<Rightarrow> Inl err
          | Inr True \<Rightarrow> Inr (H, h)
          | Inr False \<Rightarrow>
             (case cells H a of
                PDict d \<Rightarrow>
                  (case getitem d ''id'' of
                     Inl err \<Rightarrow> Inl err
                   | Inr my_id \<Rightarrow>
                      (let filter_dict = id_filter_dict fltrs my_id;
                           rec = sg_find_one sg h (entity_type self) filter_dict (Some flds);
                           h1 = h @ [FindOne (entity_type self) filter_dict (Some flds)]
                       in case rec of
                            None \<Rightarrow> Inl (missing_or_filtered sg self h1 my_id)
                          | Some r \<Rightarrow>
                              if r = [] then Inl (missing_or_filtered sg self h1 my_id)
                              else Inr (store_write H a (PDict (dict_update d r)), h1)))
              | _ \<Rightarrow> Inl TypeError)))"

text \<open>
  Lines 445 to 480: one pass of the loop over \<open>link_map\<close>, for the entry \<open>field\<close> with the
  token \<open>link_obj\<close>. \<open>slot_of\<close> is lines 470 to 471 and 475 to 476: the object of the
  target level, a new empty one when the level has no entry yet. \<open>update\<close> and \<open>extend\<close>
  write to that object, whichever keys refer to it; a scalar is assigned to the key.
\<close>

definition is_scalar :: "pyval \<Rightarrow> bool" where
  "is_scalar v = (case v of PDict _ \<Rightarrow> False | PList _ \<Rightarrow> False | _ \<Rightarrow> True)"

definition slot_of :: "sg_data_ref \<Rightarrow> store \<Rightarrow> string \<Rightarrow> pyval \<Rightarrow> sg_data_ref \<times> store \<times> addr" where
  "slot_of tokens H data_key fresh =
     (case dict_get tokens data_key of
        Some a \<Rightarrow> (tokens, H, a)
      | None \<Rightarrow> (dict_set tokens data_key (next_free H), alloc H fresh, next_free H))"

definition promote_link ::
  "entity_node \<Rightarrow> sg_data_ref \<times> store \<Rightarrow> string \<times> token \<Rightarrow> error + sg_data_ref \<times> store" where
  "promote_link self st entry =
     (case (st, entry) of ((tokens, H), (field, link_obj)) \<Rightarrow>
       (let data_key = get_sg_data_key link_obj in
        case dict_get tokens (sg_data_key_for_folder_obj self) of
          None \<Rightarrow> Inl (KeyError (sg_data_key_for_folder_obj self))
        | Some a \<Rightarrow>
           (case py_get (cells H a) field of
              Inl err \<Rightarrow> Inl err
            | Inr PNone \<Rightarrow> Inl EntityLinkTypeMismatch
            | Inr (PDict v) \<Rightarrow>
               (case getitem v ''type'' of
                  Inl err \<Rightarrow> Inl err
                | Inr ty \<Rightarrow>
                   if ty \<noteq> PStr (get_entity_type link_obj) then Inl EntityLinkTypeMismatch
                   else (case slot_of tokens H data_key (PDict []) of
                           (tokens', H', target) \<Rightarrow>
                             (case cells H' target of
                                PDict old \<Rightarrow>
                                  Inr (tokens', store_write H' target (PDict (dict_update old v)))
                              | _ \<Rightarrow> Inl AttributeError)))
            | Inr (PList l) \<Rightarrow>
               (case slot_of tokens H data_key (PList []) of
                  (tokens', H', target) \<Rightarrow>
                    (case cells H' target of
                       PList old \<Rightarrow> Inr (tokens', store_write H' target (PList (old @ l)))
                     | _ \<Rightarrow> Inl AttributeError))
            | Inr v \<Rightarrow> Inr (dict_set tokens data_key (next_free H), alloc H v))))"

fun promote_links ::
  "entity_node \<Rightarrow> sg_data_ref \<times> store \<Rightarrow> (string \<times> token) list \<Rightarrow> error + sg_data_ref \<times> store" where
  "promote_links self st [] = Inr st"
| "promote_links self st (entry # link_map) =
     (case promote_link self st entry of
        Inl err \<Rightarrow> Inl err
      | Inr st' \<Rightarrow> promote_links self st' link_map)"

text \<open>
  The whole method. It starts with \<open>tokens = copy.deepcopy(shotgun_data)\<close> (line 317).
  \<open>parent\<close> is \<open>self._parent.extract_shotgun_data_upwards\<close> when the folder has a parent
  (any kind of folder), and \<open>None\<close> for the root.
\<close>

type_synonym upwards =
  "sg_data_ref \<Rightarrow> store \<Rightarrow> sg_call list \<Rightarrow> error + sg_data_ref \<times> store \<times> sg_call list"

definition extract_level ::
  "env \<Rightarrow> shotgun \<Rightarrow> entity_node \<Rightarrow> upwards" where
  "extract_level e sg self tokens H h =
     (if dict_contains tokens (sg_data_key_for_folder_obj self) then
        (case classify_conditions (fields_to_retrieve e self) (conditions (filters self)) of
           (flds, link_map, fltrs) \<Rightarrow>
             (case fetch_missing_fields sg self flds fltrs tokens H h of
                Inl err \<Rightarrow> Inl err
              | Inr (H', h') \<Rightarrow>
                 (case promote_links self (tokens, H') link_map of
                    Inl err \<Rightarrow> Inl err
                  | Inr (tokens', H'') \<Rightarrow> Inr (tokens', H'', h'))))
      else Inr (tokens, H, h))"

definition extract_shotgun_data_upwards ::
  "env \<Rightarrow> shotgun \<Rightarrow> entity_node \<Rightarrow> upwards option \<Rightarrow> upwards" where
  "extract_shotgun_data_upwards e sg self parent shotgun_data H h =
     (case deepcopy H [] shotgun_data of
        (H0, tokens0) \<Rightarrow>
          (case add_current_user_in_store e self tokens0 H0 of
             Inl err \<Rightarrow> Inl err
           | Inr (tokens, H1) \<Rightarrow>
              (case extract_level e sg self tokens H1 h of
                 Inl err \<Rightarrow> Inl err
               | Inr (tokens', H2, h') \<Rightarrow>
                  (case parent of
                     Some parent_extract \<Rightarrow> parent_extract tokens' H2 h'
                   | None \<Rightarrow> Inr (tokens', H2, h')))))"

subsection \<open>\<open>__get_entities\<close>\<close>

text \<open>
  Lines 227 to 283. The method works on a deep copy of the working map (line 231) whose
  objects it only reads (it binds the key of a HumanUser level in the copy and nothing
  else), so the working map is taken by its value here. The result is the list of
  candidates with the calls made. The candidate taken from the working map is whatever
  value the map holds for the level; the candidates found in Shotgun are records.
\<close>

definition get_entities ::
  "env \<Rightarrow> shotgun \<Rightarrow> entity_node \<Rightarrow> pydict \<Rightarrow> sg_call list \<Rightarrow> error + pyval list \<times> sg_call list" where
  "get_entities e sg self sg_data h =
     (case resolve_shotgun_filters e (filters self) sg_data of
        Inl err \<Rightarrow> Inl err
      | Inr fltrs \<Rightarrow>
         (let flds = fields_to_retrieve e self in
          case add_current_user e self sg_data of
            Inl err \<Rightarrow> Inl err
          | Inr tokens \<Rightarrow>
             (case dict_get tokens (sg_data_key_for_folder_obj self) of
                Some mine \<Rightarrow>
                  (case py_issubset flds mine of
                     Inl err \<Rightarrow> Inl err
                   | Inr True \<Rightarrow> Inr ([mine], h)
                   | Inr False \<Rightarrow>
                      (case py_getitem mine ''id'' of
                         Inl err \<Rightarrow> Inl err
                       | Inr entity_id \<Rightarrow>
                          (let fltrs' = fltrs\<lparr>conditions := conditions fltrs @ [id_condition entity_id]\<rparr>
                           in Inr (map PDict (sg_find sg h (entity_type self) fltrs' flds),
                                   h @ [Find (entity_type self) fltrs' flds]))))
              | None \<Rightarrow>
                  Inr (map PDict (sg_find sg h (entity_type self) fltrs flds),
                       h @ [Find (entity_type self) fltrs flds]))))"

subsection \<open>\<open>_create_folders_impl\<close>\<close>

text \<open>
  Lines 171 to 225. The method never assigns to a key of a working map; it writes to
  the object of this level in its copy of the map.
\<close>

text \<open>
  What the method sends to \<open>io_receiver\<close>. \<open>_copy_files_to_folder\<close> and \<open>_process_symlinks\<close>
  are methods of the base class; only their call is recorded.
\<close>

datatype io_event =
    RegisterSecondaryEntity string pyval pyval
  | MakeEntityFolder string pydict pyval
  | CopyFilesToFolder string
  | ProcessSymlinks string pydict

definition replace_slash :: "string \<Rightarrow> string \<Rightarrow> string" where
  "replace_slash sep s = concat (map (\<lambda>c. if c = CHR ''/'' then sep else [c]) s)"

fun register_secondary_entities ::
  "entity_node \<Rightarrow> string \<Rightarrow> pydict \<Rightarrow> string list \<Rightarrow> error + io_event list" where
  "register_secondary_entities self path entity [] = Inr []"
| "register_secondary_entities self path entity (lf # lfs) =
     (case getitem entity lf of
        Inl err \<Rightarrow> Inl err
      | Inr entity_link \<Rightarrow>
         (case register_secondary_entities self path entity lfs of
            Inl err \<Rightarrow> Inl err
          | Inr events \<Rightarrow>
              Inr (RegisterSecondaryEntity path entity_link (config_metadata self) # events)))"

text \<open>One pass of the loop of lines 177 to 214, for the candidate \<open>entity\<close>.\<close>

definition create_folder ::
  "env \<Rightarrow> entity_node \<Rightarrow> string \<Rightarrow> sg_data_ref \<Rightarrow> store \<Rightarrow> pyval
     \<Rightarrow> error + (string \<times> sg_data_ref) \<times> io_event list \<times> store" where
  "create_folder e self parent_path sg_data H entity =
     (case generate_name self entity of
        Inl err \<Rightarrow> Inl err
      | Inr name \<Rightarrow>
         (let folder_name = replace_slash (os_path_sep e) name;
              my_path = os_path_join e parent_path folder_name
          in case entity of
               PDict ent \<Rightarrow>
                 (case getitem ent (get_sg_entity_name_field e (PStr (entity_type self))) of
                    Inl err \<Rightarrow> Inl err
                  | Inr name_value \<Rightarrow>
                     (case getitem ent ''id'' of
                        Inl err \<Rightarrow> Inl err
                      | Inr entity_id \<Rightarrow>
                         (case register_secondary_entities self my_path ent
                                 (get_shotgun_link_fields self) of
                            Inl err \<Rightarrow> Inl err
                          | Inr registered \<Rightarrow>
                             (case deepcopy H [] sg_data of
                                (H1, my_sg_data) \<Rightarrow>
                                  (case dict_get my_sg_data (sg_data_key_for_folder_obj self) of
                                     None \<Rightarrow> Inl (KeyError (sg_data_key_for_folder_obj self))
                                   | Some a \<Rightarrow>
                                      (case cells H1 a of
                                         PDict d \<Rightarrow>
                                           (let H2 = H1\<lparr>cells := (cells H1)
                                                  (a := PDict (dict_set (dict_update d ent)
                                                     ''computed_name'' (PStr folder_name)))\<rparr>
                                            in Inr ((my_path, my_sg_data),
                                                    registered @
                                                    [MakeEntityFolder my_path
                                                       [(''type'', PStr (entity_type self)),
                                                        (''id'', entity_id), (''name'', name_value)]
                                                       (config_metadata self),
                                                     CopyFilesToFolder my_path,
                                                     ProcessSymlinks my_path
                                                       (store_read H2 my_sg_data)],
                                                    H2))
                                       | _ \<Rightarrow> Inl AttributeError))))))
             | _ \<Rightarrow> Inl TypeError))"

text \<open>
  The loop and the method. \<open>__get_entities\<close> starts with a deep copy of its argument
  (line 231) and only assigns to that copy, so it is given the value of the working map
  as the store holds it and leaves the store alone.
\<close>

fun create_folders_loop ::
  "env \<Rightarrow> entity_node \<Rightarrow> string \<Rightarrow> sg_data_ref \<Rightarrow> store \<Rightarrow> pyval list
     \<Rightarrow> error + (string \<times> sg_data_ref) list \<times> io_event list \<times> store" where
  "create_folders_loop e self parent_path sg_data H [] = Inr ([], [], H)"
| "create_folders_loop e self parent_path sg_data H (entity # entities) =
     (case create_folder e self parent_path sg_data H entity of
        Inl err \<Rightarrow> Inl err
      | Inr (item, events, H1) \<Rightarrow>
         (case create_folders_loop e self parent_path sg_data H1 entities of
            Inl err \<Rightarrow> Inl err
          | Inr (items_created, events', H2) \<Rightarrow>
              Inr (item # items_created, events @ events', H2)))"

definition create_folders_impl ::
  "env \<Rightarrow> shotgun \<Rightarrow> entity_node \<Rightarrow> string \<Rightarrow> sg_data_ref \<Rightarrow> store \<Rightarrow> sg_call list
     \<Rightarrow> error + (string \<times> sg_data_ref) list \<times> io_event list \<times> store \<times> sg_call list" where
  "create_folders_impl e sg self parent_path sg_data H h =
     (case get_entities e sg self (store_read H sg_data) h of
        Inl err \<Rightarrow> Inl err
      | Inr (entities, h') \<Rightarrow>
         (case create_folders_loop e self parent_path sg_data H entities of
            Inl err \<Rightarrow> Inl err
          | Inr (items_created, events, H') \<Rightarrow> Inr (items_created, events, H', h')))"

subsection \<open>\<open>get_entries_from_path\<close>\<close>

text \<open>
  Lines 548 to 601, \<open>get_entity_from_fields\<close>. The loop of lines 560 to 566 is
  \<open>find_path_field\<close>; it returns \<open>field_name\<close> and \<open>field_value\<close>, both \<open>None\<close> when no key
  of the path matches the entity type.
\<close>

fun find_path_field :: "entity_node \<Rightarrow> pydict \<Rightarrow> string option \<times> pyval" where
  "find_path_field self [] = (None, PNone)"
| "find_path_field self ((field_key, v) # path_fields) =
     (case dict_get (template_path_keys self) field_key of
        None \<Rightarrow> find_path_field self path_fields
      | Some tkey \<Rightarrow>
          if shotgun_entity_type tkey = Some (entity_type self)
          then (shotgun_field_name tkey, v)
          else find_path_field self path_fields)"

definition get_entity_from_fields ::
  "env \<Rightarrow> shotgun \<Rightarrow> entity_node \<Rightarrow> pydict \<Rightarrow> pydict \<Rightarrow> sg_call list
     \<Rightarrow> error + pydict \<times> pydict \<times> sg_call list" where
  "get_entity_from_fields e sg self path_fields sg_data h =
     (case find_path_field self path_fields of
        (None, _) \<Rightarrow> Inl (TankError_MissingFromPath (entity_type self))
      | (Some field_name, field_value) \<Rightarrow>
          if field_name = [] then Inl (TankError_MissingFromPath (entity_type self))
          else (case resolve_shotgun_filters e (filters self) sg_data of
                  Inl err \<Rightarrow> Inl err
                | Inr fltrs \<Rightarrow>
                   (let resolved_filters = fltrs\<lparr>conditions := conditions fltrs @
                          [\<lparr>cond_path = field_name, cond_relation = ''is'',
                            cond_values = [field_value]\<rparr>]\<rparr>;
                        flds = fields_to_retrieve e self;
                        query = DictFilters resolved_filters;
                        h1 = h @ [FindOne (entity_type self) query (Some flds)]
                    in case sg_find_one sg h (entity_type self) query (Some flds) of
                         None \<Rightarrow> Inl (TankError_CannotFind (entity_type self) field_value resolved_filters)
                       | Some entity \<Rightarrow>
                           if entity = []
                           then Inl (TankError_CannotFind (entity_type self) field_value resolved_filters)
                           else Inr (entity, dict_set sg_data (entity_type self) (PDict entity), h1))))"

text \<open>
  A folder object of the chain \<open>[self] + self.get_parents()\<close>: an \<open>Entity\<close>, or a folder of
  another class, which has no method \<open>get_entity_from_fields\<close>.
\<close>

datatype folder = EntityFolder entity_node | OtherFolder

record entry =
  entry_entity :: pyval
  entry_path :: string
  entry_primary :: bool
  entry_metadata :: pyval

text \<open>
  Lines 532 to 539: the secondary entries of one pass, read with the link fields of
  \<open>self\<close>, the folder the method was called on.
\<close>

fun secondary_entries_of :: "entity_node \<Rightarrow> pydict \<Rightarrow> string \<Rightarrow> string list \<Rightarrow> error + entry list" where
  "secondary_entries_of self entity local_path [] = Inr []"
| "secondary_entries_of self entity local_path (lf # lfs) =
     (case getitem entity lf of
        Inl err \<Rightarrow> Inl err
      | Inr entity_link \<Rightarrow>
         (case secondary_entries_of self entity local_path lfs of
            Inl err \<Rightarrow> Inl err
          | Inr others \<Rightarrow>
              Inr (\<lparr>entry_entity = entity_link, entry_path = local_path, entry_primary = False,
                    entry_metadata = config_metadata self\<rparr> # others)))"

text \<open>
  Lines 504 to 539: the loop over the chain, already reversed. Its state is \<open>sg_data\<close>,
  \<open>entries\<close>, \<open>secondary_entries\<close> and the calls made. An \<open>AttributeError\<close> of
  \<open>get_entity_from_fields\<close> is caught and the folder skipped.
\<close>

type_synonym entries_state = "pydict \<times> entry list \<times> entry list \<times> sg_call list"

definition add_entries ::
  "env \<Rightarrow> entity_node \<Rightarrow> entity_node \<Rightarrow> pydict \<Rightarrow> pydict \<Rightarrow> error + entry \<times> entry list" where
  "add_entries e self folder_obj path_fields entity =
     (case getitem entity ''type'' of
        Inl err \<Rightarrow> Inl err
      | Inr ty \<Rightarrow>
         (case getitem entity (get_sg_entity_name_field e ty) of
            Inl err \<Rightarrow> Inl err
          | Inr name_value \<Rightarrow>
             (case getitem entity ''id'' of
                Inl err \<Rightarrow> Inl err
              | Inr entity_id \<Rightarrow>
                 (case apply_fields folder_obj path_fields of
                    Inl err \<Rightarrow> Inl err
                  | Inr local_path \<Rightarrow>
                     (case secondary_entries_of self entity local_path (get_shotgun_link_fields self) of
                        Inl err \<Rightarrow> Inl err
                      | Inr secondary \<Rightarrow>
                          Inr (\<lparr>entry_entity = PDict [(''type'', ty), (''id'', entity_id),
                                                       (''name'', name_value)],
                                entry_path = local_path, entry_primary = True,
                                entry_metadata = config_metadata self\<rparr>, secondary))))))"

fun entries_loop ::
  "env \<Rightarrow> shotgun \<Rightarrow> entity_node \<Rightarrow> pydict \<Rightarrow> entries_state \<Rightarrow> folder list \<Rightarrow> error + entries_state" where
  "entries_loop e sg self path_fields st [] = Inr st"
| "entries_loop e sg self path_fields st (OtherFolder # rest) =
     entries_loop e sg self path_fields st rest"
| "entries_loop e sg self path_fields (sg_data, entries, secondary_entries, h) (EntityFolder folder_obj # rest) =
     (case get_entity_from_fields e sg folder_obj path_fields sg_data h of
        Inl AttributeError \<Rightarrow>
          entries_loop e sg self path_fields (sg_data, entries, secondary_entries, h) rest
      | Inl err \<Rightarrow> Inl err
      | Inr (entity, sg_data', h') \<Rightarrow>
         (case add_entries e self folder_obj path_fields entity of
            Inl err \<Rightarrow> Inl err
          | Inr (primary, secondary) \<Rightarrow>
              entries_loop e sg self path_fields
                (sg_data', entries @ [primary], secondary_entries @ secondary, h') rest))"

text \<open>
  Lines 496 to 546 for a chain \<open>folder_objs_to_recurse\<close>; \<open>path_fields\<close> is
  \<open>self.template_path.get_fields(input_path)\<close>.
\<close>

definition entries_from_chain ::
  "env \<Rightarrow> shotgun \<Rightarrow> entity_node \<Rightarrow> folder list \<Rightarrow> pydict \<Rightarrow> sg_call list
     \<Rightarrow> error + entry option \<times> entry list" where
  "entries_from_chain e sg self folder_objs_to_recurse path_fields h =
     (case entries_loop e sg self path_fields ([], [], [], h) (rev folder_objs_to_recurse) of
        Inl err \<Rightarrow> Inl err
      | Inr (sg_data, entries, secondary_entries, h') \<Rightarrow>
          if entries \<noteq> [] then Inr (Some (last entries), butlast entries @ secondary_entries)
          else Inr (None, entries @ secondary_entries))"

definition get_entries_from_path ::
  "env \<Rightarrow> shotgun \<Rightarrow> entity_node \<Rightarrow> folder list \<Rightarrow> pydict \<Rightarrow> sg_call list
     \<Rightarrow> error + entry option \<times> entry list" where
  "get_entries_from_path e sg self get_parents path_fields h =
     entries_from_chain e sg self (EntityFolder self # get_parents) path_fields h"

section \<open>Notions used in the properties\<close>

text \<open>
  The three kinds of condition the specification tells apart: a condition is ignored when
  its value list is empty or its path starts with the marker; otherwise it is read by
  the first element of its value list alone.
\<close>

definition ignored_condition :: "condition \<Rightarrow> bool" where
  "ignored_condition c = (cond_values c = [] \<or> prefix ''$FROM$'' (cond_path c))"

definition first_token :: "condition \<Rightarrow> token option" where
  "first_token c = (case cond_values c of PToken t # _ \<Rightarrow> Some t | _ \<Rightarrow> None)"

definition token_links :: "condition list \<Rightarrow> (string \<times> token) list" where
  "token_links cs =
     List.map_filter (\<lambda>c. if ignored_condition c then None
                          else map_option (Pair (cond_path c)) (first_token c)) cs"

text \<open>
  The working map a candidate is to receive, as the specification has it: the input map
  with, under the key of this level, the record it held merged with the fields of the
  candidate and the key \<open>computed_name\<close>.
\<close>

definition extend_sg_data :: "env \<Rightarrow> entity_node \<Rightarrow> pydict \<Rightarrow> pyval \<Rightarrow> pydict option" where
  "extend_sg_data e self sg_data entity =
     (case (entity, dict_get sg_data (sg_data_key_for_folder_obj self), generate_name self entity) of
        (PDict ent, Some (PDict d), Inr name) \<Rightarrow>
          Some (dict_set sg_data (sg_data_key_for_folder_obj self)
                  (PDict (dict_set (dict_update d ent) ''computed_name''
                            (PStr (replace_slash (os_path_sep e) name)))))
      | _ \<Rightarrow> None)"

text \<open>The addresses of the objects of the working maps returned.\<close>

definition refs_of :: "(string \<times> sg_data_ref) list \<Rightarrow> addr list" where
  "refs_of items_created = concat (map (\<lambda>item. map snd (snd item)) items_created)"

text \<open>
  A candidate the loop body can handle: a record for which the name expression gives a
  name and which holds the name field, the id and the link fields of the name
  expression.
\<close>

definition usable_candidate :: "env \<Rightarrow> entity_node \<Rightarrow> pyval \<Rightarrow> bool" where
  "usable_candidate e self entity =
     (case (entity, generate_name self entity) of
        (PDict ent, Inr name) \<Rightarrow>
          dict_contains ent (get_sg_entity_name_field e (PStr (entity_type self))) \<and>
          dict_contains ent ''id'' \<and>
          list_all (dict_contains ent) (get_shotgun_link_fields self)
      | _ \<Rightarrow> False)"

text \<open>What the result of an extraction holds, read from its store.\<close>

definition read_back :: "error + sg_data_ref \<times> store \<Rightarrow> error + pydict" where
  "read_back r = (case r of Inl err \<Rightarrow> Inl err | Inr (tokens, H) \<Rightarrow> Inr (store_read H tokens))"

definition read_extracted ::
  "error + sg_data_ref \<times> store \<times> sg_call list \<Rightarrow> error + pydict \<times> sg_call list" where
  "read_extracted r =
     (case r of Inl err \<Rightarrow> Inl err | Inr (tokens, H, h) \<Rightarrow> Inr (store_read H tokens, h))"

section \<open>A sample configuration\<close>

text \<open>
  Modelled from the spec: \<open>util.resolve_shotgun_filters\<close>, which is not part of this
  module. Section 4.2 of the specification: every Filter Token in the value list of a
  condition is replaced by the record that the working map holds for the token's level,
  a token whose level is absent is an error, and other values pass unchanged.
\<close>

fun resolve_values :: "pydict \<Rightarrow> pyval list \<Rightarrow> error + pyval list" where
  "resolve_values sg_data [] = Inr []"
| "resolve_values sg_data (v # vs) =
     (case (case v of
              PToken t \<Rightarrow> (case dict_get sg_data (get_sg_data_key t) of
                             None \<Rightarrow> Inl TankError_Other
                           | Some r \<Rightarrow> Inr r)
            | _ \<Rightarrow> Inr v) of
        Inl err \<Rightarrow> Inl err
      | Inr v' \<Rightarrow> (case resolve_values sg_data vs of
                     Inl err \<Rightarrow> Inl err
                   | Inr vs' \<Rightarrow> Inr (v' # vs')))"

fun resolve_conditions :: "pydict \<Rightarrow> condition list \<Rightarrow> error + condition list" where
  "resolve_conditions sg_data [] = Inr []"
| "resolve_conditions sg_data (c # cs) =
     (case resolve_values sg_data (cond_values c) of
        Inl err \<Rightarrow> Inl err
      | Inr vs \<Rightarrow> (case resolve_conditions sg_data cs of
                     Inl err \<Rightarrow> Inl err
                   | Inr cs' \<Rightarrow> Inr (c\<lparr>cond_values := vs\<rparr> # cs')))"

definition resolve_filters_spec :: "sg_filter \<Rightarrow> pydict \<Rightarrow> error + sg_filter" where
  "resolve_filters_spec fltr sg_data =
     (case resolve_conditions sg_data (conditions fltr) of
        Inl err \<Rightarrow> Inl err
      | Inr cs \<Rightarrow> Inr (fltr\<lparr>conditions := cs\<rparr>))"

text \<open>
  An environment, a Shot folder whose filter is \<open>sg_sequence is $sequence\<close> and
  \<open>sg_status_list is ip\<close>, and three Shotgun connections: an empty one, one that holds
  the Shot 1 with a status the filter excludes, and one that answers every query with
  the same two Shots.
\<close>

definition sample_env :: env where
  "sample_env =
     \<lparr>get_sg_entity_name_field =
        (\<lambda>ty. if ty = PStr ''Project'' \<or> ty = PStr ''HumanUser'' then ''name'' else ''code''),
      get_current_user = None,
      resolve_shotgun_filters = resolve_filters_spec,
      os_path_sep = ''/'',
      os_path_join = (\<lambda>a b. a @ ''/'' @ b)\<rparr>"

definition sequence_token :: token where
  "sequence_token = \<lparr>get_sg_data_key = ''Sequence'', get_entity_type = ''Sequence''\<rparr>"

definition shot_filters :: sg_filter where
  "shot_filters =
     \<lparr>logical_operator = ''and'',
      conditions =
        [\<lparr>cond_path = ''sg_sequence'', cond_relation = ''is'', cond_values = [PToken sequence_token]\<rparr>,
         \<lparr>cond_path = ''sg_status_list'', cond_relation = ''is'', cond_values = [PStr ''ip'']\<rparr>]\<rparr>"

definition shot_node :: entity_node where
  "shot_node =
     \<lparr>entity_type = ''Shot'',
      sg_data_key_for_folder_obj = ''Shot'',
      get_shotgun_fields = {''code''},
      get_shotgun_link_fields = [],
      generate_name = (\<lambda>entity. case py_getitem entity ''code'' of
                                    Inr (PStr s) \<Rightarrow> Inr s
                                  | Inr _ \<Rightarrow> Inl TankError_Other
                                  | Inl err \<Rightarrow> Inl err),
      get_additional_sg_fields = [],
      filters = shot_filters,
      create_with_parent = False,
      config_metadata = PDict [(''type'', PStr ''shotgun_entity'')],
      template_path_keys =
        [(''Shot.code'', \<lparr>shotgun_entity_type = Some ''Shot'', shotgun_field_name = Some ''code''\<rparr>)],
      apply_fields = (\<lambda>path_fields. case getitem path_fields ''Shot.code'' of
                                         Inr (PStr s) \<Rightarrow> Inr (''/proj/'' @ s)
                                       | Inr _ \<Rightarrow> Inl TankError_Other
                                       | Inl err \<Rightarrow> Inl err)\<rparr>"

definition shot_seed :: pydict where
  "shot_seed = [(''Shot'', PDict [(''type'', PStr ''Shot''), (''id'', PInt 1)])]"

definition sg_empty :: shotgun where
  "sg_empty = \<lparr>sg_find = (\<lambda>h ty fltr flds. []), sg_find_one = (\<lambda>h ty q flds. None)\<rparr>"

definition sg_filtered_out :: shotgun where
  "sg_filtered_out =
     \<lparr>sg_find = (\<lambda>h ty fltr flds. []),
      sg_find_one = (\<lambda>h ty q flds.
         case q of
           ListFilters _ \<Rightarrow> Some [(''type'', PStr ''Shot''), (''id'', PInt 1)]
         | DictFilters _ \<Rightarrow> None)\<rparr>"

definition sg_two_shots :: shotgun where
  "sg_two_shots =
     \<lparr>sg_find = (\<lambda>h ty fltr flds.
         [[(''type'', PStr ''Shot''), (''id'', PInt 1), (''code'', PStr ''s010'')],
          [(''type'', PStr ''Shot''), (''id'', PInt 2), (''code'', PStr ''s020'')]]),
      sg_find_one = (\<lambda>h ty q flds. None)\<rparr>"

definition sequence_record :: pyval where
  "sequence_record = PDict [(''type'', PStr ''Sequence''), (''id'', PInt 7), (''code'', PStr ''seq'')]"

definition full_shot_data :: pydict where
  "full_shot_data =
     [(''Sequence'', sequence_record),
      (''Shot'', PDict [(''type'', PStr ''Shot''), (''id'', PInt 1), (''code'', PStr ''s010'')])]"

definition partial_shot_data :: pydict where
  "partial_shot_data =
     [(''Sequence'', sequence_record),
      (''Shot'', PDict [(''type'', PStr ''Shot''), (''id'', PInt 1)])]"

definition sequence_data :: pydict where
  "sequence_data = [(''Sequence'', sequence_record)]"

definition resolved_shot_filters :: sg_filter where
  "resolved_shot_filters =
     \<lparr>logical_operator = ''and'',
      conditions =
        [\<lparr>cond_path = ''sg_sequence'', cond_relation = ''is'', cond_values = [sequence_record]\<rparr>,
         \<lparr>cond_path = ''sg_status_list'', cond_relation = ''is'', cond_values = [PStr ''ip'']\<rparr>]\<rparr>"

text \<open>
  Further samples: conditions under the \<open>$FROM$\<close> marker and with a token after a
  literal, a Shot record with a given value of \<open>sg_sequence\<close>, a Shot folder whose only
  filter is the token condition, a Sequence folder whose name expression uses the link
  field \<open>project\<close>, the fields of a path, a connection that knows one Sequence and one
  Shot, and a store holding a working map.
\<close>

definition from_step_condition :: condition where
  "from_step_condition =
     \<lparr>cond_path = ''$FROM$Task.step.entity'', cond_relation = ''is'',
      cond_values = [PToken sequence_token]\<rparr>"

definition mixed_condition :: condition where
  "mixed_condition =
     \<lparr>cond_path = ''sg_status_list'', cond_relation = ''in'',
      cond_values = [PStr ''ip'', PToken sequence_token]\<rparr>"

definition sequence_link :: pydict where
  "sequence_link = [(''type'', PStr ''Sequence''), (''id'', PInt 7), (''name'', PStr ''seq'')]"

definition shot_record :: "pyval \<Rightarrow> pyval" where
  "shot_record sg_sequence =
     PDict [(''type'', PStr ''Shot''), (''id'', PInt 1), (''code'', PStr ''s010''),
            (''sg_sequence'', sg_sequence)]"

definition token_only_shot_node :: entity_node where
  "token_only_shot_node =
     shot_node\<lparr>filters := \<lparr>logical_operator = ''and'',
                             conditions = [\<lparr>cond_path = ''sg_sequence'', cond_relation = ''is'',
                                            cond_values = [PToken sequence_token]\<rparr>]\<rparr>\<rparr>"

definition project_link :: pyval where
  "project_link = PDict [(''type'', PStr ''Project''), (''id'', PInt 3), (''name'', PStr ''proj'')]"

definition sequence_node :: entity_node where
  "sequence_node =
     \<lparr>entity_type = ''Sequence'',
      sg_data_key_for_folder_obj = ''Sequence'',
      get_shotgun_fields = {''code''},
      get_shotgun_link_fields = [''project''],
      generate_name = (\<lambda>entity. case py_getitem entity ''code'' of
                                    Inr (PStr s) \<Rightarrow> Inr s
                                  | Inr _ \<Rightarrow> Inl TankError_Other
                                  | Inl err \<Rightarrow> Inl err),
      get_additional_sg_fields = [],
      filters = \<lparr>logical_operator = ''and'', conditions = []\<rparr>,
      create_with_parent = False,
      config_metadata = PDict [(''type'', PStr ''shotgun_entity''), (''name'', PStr ''code'')],
      template_path_keys =
        [(''Sequence.code'',
          \<lparr>shotgun_entity_type = Some ''Sequence'', shotgun_field_name = Some ''code''\<rparr>)],
      apply_fields = (\<lambda>path_fields. case getitem path_fields ''Sequence.code'' of
                                         Inr (PStr s) \<Rightarrow> Inr (''/proj/'' @ s)
                                       | Inr _ \<Rightarrow> Inl TankError_Other
                                       | Inl err \<Rightarrow> Inl err)\<rparr>"

definition sample_path_fields :: pydict where
  "sample_path_fields = [(''Sequence.code'', PStr ''seq''), (''Shot.code'', PStr ''s010'')]"

definition sg_path :: shotgun where
  "sg_path =
     \<lparr>sg_find = (\<lambda>h ty fltr flds. []),
      sg_find_one = (\<lambda>h ty q flds.
         if ty = ''Sequence''
         then Some [(''type'', PStr ''Sequence''), (''id'', PInt 7), (''code'', PStr ''seq''),
                    (''project'', project_link)]
         else if ty = ''Shot''
         then Some [(''type'', PStr ''Shot''), (''id'', PInt 1), (''code'', PStr ''s010'')]
         else None)\<rparr>"

definition linked_shot_node :: entity_node where
  "linked_shot_node = shot_node\<lparr>get_shotgun_link_fields := [''sg_sequence'']\<rparr>"

definition plain_sequence_node :: entity_node where
  "plain_sequence_node = sequence_node\<lparr>get_shotgun_link_fields := []\<rparr>"

definition sample_store :: store where
  "sample_store =
     \<lparr>cells = (\<lambda>a. if a = 0 then sequence_record
                    else if a = 1 then PDict [(''type'', PStr ''Shot''), (''id'', PInt 1)]
                    else PNone),
      next_free = 2\<rparr>"

definition sample_sg_data_ref :: sg_data_ref where
  "sample_sg_data_ref = [(''Sequence'', 0), (''Shot'', 1)]"

text \<open>
  A working map given by its value, every level an object of its own: the store and the
  map of references.
\<close>

definition put_in_store :: "pydict \<Rightarrow> store" where
  "put_in_store d =
     \<lparr>cells = (\<lambda>a. if a < length d then snd (d ! a) else PNone), next_free = length d\<rparr>"

definition refs_in_store :: "pydict \<Rightarrow> sg_data_ref" where
  "refs_in_store d = zip (map fst d) [0..<length d]"

text \<open>
  A working map that holds the whole Shot record and nothing for the Sequence, and a
  HumanUser folder with the current user Bob.
\<close>

definition shot_only_data :: pydict where
  "shot_only_data =
     [(''Shot'', PDict [(''type'', PStr ''Shot''), (''id'', PInt 1), (''code'', PStr ''s010'')])]"

definition bob :: pydict where
  "bob = [(''type'', PStr ''HumanUser''), (''id'', PInt 42), (''login'', PStr ''bob''),
          (''name'', PStr ''Bob'')]"

definition user_env :: env where
  "user_env = sample_env\<lparr>get_current_user := Some bob\<rparr>"

definition user_node :: entity_node where
  "user_node =
     shot_node\<lparr>entity_type := ''HumanUser'', sg_data_key_for_folder_obj := ''HumanUser'',
                get_shotgun_fields := {''login''},
                filters := \<lparr>logical_operator = ''and'', conditions = []\<rparr>\<rparr>"

section \<open>Properties\<close>

subsection \<open>Create with parent\<close>

text \<open>
  C6. An entity node whose \<open>create_with_parent\<close> flag is false is not processed when it
  is not the primary target: \<open>_should_item_be_processed\<close> returns \<open>False\<close>. For the primary
  target the flag plays no part: the answer is the one of the base class.
\<close>

theorem C6_create_with_parent:
  "(\<not> create_with_parent self \<longrightarrow>
      should_item_be_processed super_impl self engine_str False = False) \<and>
   should_item_be_processed super_impl self engine_str True = super_impl engine_str True"
  by (simp add: should_item_be_processed_def)

theorem C6_create_with_parent_witness:
  "\<not> create_with_parent shot_node \<and>
   should_item_be_processed (\<lambda>engine_str is_primary. True) shot_node ''tk-maya'' False = False \<and>
   should_item_be_processed (\<lambda>engine_str is_primary. True) shot_node ''tk-maya'' True = True"
  using C6_create_with_parent [of shot_node "\<lambda>engine_str is_primary. True" "''tk-maya''"]
  by (simp add: shot_node_def)

subsection \<open>Facts about the store\<close>

lemma store_read_cong:
  "\<forall>a \<in> snd ` set m. cells H a = cells H' a \<Longrightarrow> store_read H m = store_read H' m"
  by (auto simp: store_read_def)

lemma dict_get_store_read:
  "dict_get (store_read H m) k = map_option (cells H) (dict_get m k)"
  by (induction m) (auto simp: store_read_def dict_get_def)

lemma dict_get_in_refs: "dict_get m k = Some a \<Longrightarrow> a \<in> snd ` set m"
  by (auto simp: dict_get_def dest!: map_of_SomeD intro: rev_image_eqI)

lemma store_read_update:
  "distinct (map snd m) \<Longrightarrow> dict_get m k = Some a \<Longrightarrow>
   store_read (H\<lparr>cells := (cells H)(a := v)\<rparr>) m = dict_set (store_read H m) k v"
proof (induction m)
  case Nil
  then show ?case by (simp add: dict_get_def)
next
  case (Cons x m)
  obtain k' a' where x: "x = (k', a')" by (cases x)
  show ?case
  proof (cases "k' = k")
    case True
    with Cons.prems x have a: "a' = a" and "a \<notin> snd ` set m"
      by (auto simp: dict_get_def)
    then have "store_read (H\<lparr>cells := (cells H)(a := v)\<rparr>) m = store_read H m"
      by (intro store_read_cong) auto
    with True a x show ?thesis by (simp add: store_read_def)
  next
    case False
    with Cons.prems x have get: "dict_get m k = Some a"
      by (simp add: dict_get_def)
    then have "a \<in> snd ` set m" by (rule dict_get_in_refs)
    with Cons.prems x have "a' \<noteq> a" by auto
    with False x Cons.IH [OF _ get] Cons.prems show ?thesis
      by (simp add: store_read_def)
  qed
qed

lemma deepcopy_props:
  "deepcopy H memo m = (H', m') \<Longrightarrow> distinct (map snd m) \<Longrightarrow>
   fst ` set memo \<inter> snd ` set m = {} \<Longrightarrow>
   next_free H' = next_free H + length m \<and>
   (\<forall>a < next_free H. cells H' a = cells H a) \<and>
   map fst m' = map fst m \<and>
   map snd m' = [next_free H ..< next_free H + length m]"
proof (induction m arbitrary: H memo H' m')
  case Nil
  then show ?case by simp
next
  case (Cons x m)
  obtain k a where x: "x = (k, a)" by (cases x)
  define H1 where "H1 = H\<lparr>cells := (cells H)(next_free H := cells H a),
                            next_free := Suc (next_free H)\<rparr>"
  have new: "map_of memo a = None"
    using Cons.prems(3) x by (auto simp: map_of_eq_None_iff)
  obtain H2 m2 where rest: "deepcopy H1 ((a, next_free H) # memo) m = (H2, m2)"
    by (cases "deepcopy H1 ((a, next_free H) # memo) m")
  with Cons.prems(1) x new have res: "H' = H2" "m' = (k, next_free H) # m2"
    by (auto simp: H1_def)
  have dist: "distinct (map snd m)" using Cons.prems(2) by simp
  have memo: "fst ` set ((a, next_free H) # memo) \<inter> snd ` set m = {}"
    using Cons.prems(2,3) x by auto
  from Cons.IH [OF rest dist memo] have ih:
    "next_free H2 = next_free H1 + length m"
    "\<forall>a < next_free H1. cells H2 a = cells H1 a"
    "map fst m2 = map fst m"
    "map snd m2 = [next_free H1 ..< next_free H1 + length m]"
    by auto
  have nf: "next_free H1 = Suc (next_free H)" by (simp add: H1_def)
  have "\<forall>b < next_free H. cells H2 b = cells H b"
    using ih(2) nf by (simp add: H1_def)
  moreover have "map snd m' = [next_free H ..< next_free H + length (x # m)]"
  proof -
    have "[next_free H ..< next_free H + length (x # m)]
            = next_free H # [Suc (next_free H) ..< Suc (next_free H) + length m]"
      by (subst upt_conv_Cons) simp_all
    also have "\<dots> = next_free H # map snd m2"
      using ih(4) nf by (simp only:)
    finally show ?thesis using res by simp
  qed
  ultimately show ?case
    using ih(1,3) nf res x by simp
qed

lemma deepcopy_read:
  "deepcopy H memo m = (H', m') \<Longrightarrow> distinct (map snd m) \<Longrightarrow>
   fst ` set memo \<inter> snd ` set m = {} \<Longrightarrow> \<forall>a \<in> snd ` set m. a < next_free H \<Longrightarrow>
   store_read H' m' = store_read H m"
proof (induction m arbitrary: H memo H' m')
  case Nil
  then show ?case by (simp add: store_read_def)
next
  case (Cons x m)
  obtain k a where x: "x = (k, a)" by (cases x)
  define H1 where "H1 = H\<lparr>cells := (cells H)(next_free H := cells H a),
                            next_free := Suc (next_free H)\<rparr>"
  have new: "map_of memo a = None"
    using Cons.prems(3) x by (auto simp: map_of_eq_None_iff)
  obtain H2 m2 where rest: "deepcopy H1 ((a, next_free H) # memo) m = (H2, m2)"
    by (cases "deepcopy H1 ((a, next_free H) # memo) m")
  with Cons.prems(1) x new have res: "H' = H2" "m' = (k, next_free H) # m2"
    by (auto simp: H1_def)
  have dist: "distinct (map snd m)" using Cons.prems(2) by simp
  have memo: "fst ` set ((a, next_free H) # memo) \<inter> snd ` set m = {}"
    using Cons.prems(2,3) x by auto
  have valid1: "\<forall>b \<in> snd ` set m. b < next_free H1"
    using Cons.prems(4) by (auto simp: H1_def less_Suc_eq)
  have "store_read H2 m2 = store_read H1 m"
    by (rule Cons.IH [OF rest dist memo valid1])
  also have "store_read H1 m = store_read H m"
    using Cons.prems(4) by (intro store_read_cong) (auto simp: H1_def)
  finally have tail: "store_read H2 m2 = store_read H m" .
  have "cells H2 (next_free H) = cells H1 (next_free H)"
    using deepcopy_props [OF rest dist memo] by (simp add: H1_def)
  then have "cells H2 (next_free H) = cells H a" by (simp add: H1_def)
  with tail res x show ?case by (simp add: store_read_def)
qed


lemma store_read_alloc:
  "\<forall>a \<in> snd ` set m. a < next_free H \<Longrightarrow> store_read (alloc H v) m = store_read H m"
  by (intro store_read_cong) (auto simp: alloc_def)

lemma store_read_put_in_store: "store_read (put_in_store d) (refs_in_store d) = d"
proof (rule nth_equalityI)
  show "length (store_read (put_in_store d) (refs_in_store d)) = length d"
    by (simp add: store_read_def refs_in_store_def)
next
  fix i
  assume "i < length (store_read (put_in_store d) (refs_in_store d))"
  then have i: "i < length d" by (simp add: store_read_def refs_in_store_def)
  then have "refs_in_store d ! i = (fst (d ! i), i)"
    by (simp add: refs_in_store_def)
  with i show "store_read (put_in_store d) (refs_in_store d) ! i = d ! i"
    by (simp add: store_read_def put_in_store_def refs_in_store_def)
qed

lemma refs_in_store_valid: "\<forall>a \<in> snd ` set (refs_in_store d). a < next_free (put_in_store d)"
proof
  fix a
  assume "a \<in> snd ` set (refs_in_store d)"
  then obtain k where "(k, a) \<in> set (zip (map fst d) [0..<length d])"
    unfolding refs_in_store_def by force
  then have "a \<in> set [0..<length d]" by (rule set_zip_rightD)
  then show "a < next_free (put_in_store d)" by (simp add: put_in_store_def)
qed

text \<open>
  The deep copy reads as the original, whatever objects the levels share, and touches no
  object that existed.
\<close>

lemma deepcopy_shared:
  "deepcopy H memo m = (H', m') \<Longrightarrow> \<forall>a \<in> snd ` set m. a < next_free H \<Longrightarrow>
   \<forall>(a, c) \<in> set memo. a < next_free H \<and> c < next_free H \<and> cells H c = cells H a \<Longrightarrow>
   store_read H' m' = store_read H m \<and> next_free H \<le> next_free H' \<and>
   (\<forall>a < next_free H. cells H' a = cells H a) \<and>
   (\<forall>c \<in> snd ` set m'. c < next_free H')"
proof (induction m arbitrary: H memo H' m')
  case Nil
  then show ?case by (simp add: store_read_def)
next
  case (Cons x m)
  obtain k a where x: "x = (k, a)" by (cases x)
  have a: "a < next_free H" using Cons.prems(2) x by simp
  have valid: "\<forall>b \<in> snd ` set m. b < next_free H" using Cons.prems(2) by simp
  show ?case
  proof (cases "map_of memo a")
    case (Some c)
    then have "(a, c) \<in> set memo" by (rule map_of_SomeD)
    with Cons.prems(3) have c: "c < next_free H" "cells H c = cells H a" by auto
    obtain H2 m2 where rest: "deepcopy H memo m = (H2, m2)" by (cases "deepcopy H memo m")
    with Cons.prems(1) x Some have res: "H' = H2" "m' = (k, c) # m2" by auto
    from Cons.IH [OF rest valid Cons.prems(3)] have ih:
      "store_read H2 m2 = store_read H m" "next_free H \<le> next_free H2"
      "\<forall>a < next_free H. cells H2 a = cells H a" "\<forall>c \<in> snd ` set m2. c < next_free H2"
      by auto
    show ?thesis
      using ih c res x by (auto simp: store_read_def)
  next
    case None
    define H1 where "H1 = H\<lparr>cells := (cells H)(next_free H := cells H a),
                              next_free := Suc (next_free H)\<rparr>"
    obtain H2 m2 where rest: "deepcopy H1 ((a, next_free H) # memo) m = (H2, m2)"
      by (cases "deepcopy H1 ((a, next_free H) # memo) m")
    with Cons.prems(1) x None have res: "H' = H2" "m' = (k, next_free H) # m2"
      by (auto simp: H1_def)
    have valid1: "\<forall>b \<in> snd ` set m. b < next_free H1"
      using valid by (auto simp: H1_def less_Suc_eq)
    have memo1: "\<forall>(b, c) \<in> set ((a, next_free H) # memo).
        b < next_free H1 \<and> c < next_free H1 \<and> cells H1 c = cells H1 b"
      using Cons.prems(3) a by (auto simp: H1_def less_Suc_eq)
    from Cons.IH [OF rest valid1 memo1] have ih:
      "store_read H2 m2 = store_read H1 m" "next_free H1 \<le> next_free H2"
      "\<forall>a < next_free H1. cells H2 a = cells H1 a" "\<forall>c \<in> snd ` set m2. c < next_free H2"
      by auto
    have "store_read H1 m = store_read H m"
      using valid by (intro store_read_cong) (auto simp: H1_def)
    moreover have "cells H2 (next_free H) = cells H a"
      using ih(3) a by (simp add: H1_def)
    moreover have "\<forall>b < next_free H. cells H2 b = cells H b"
      using ih(3) by (auto simp: H1_def less_Suc_eq)
    moreover have "next_free H < next_free H2"
      using ih(2) by (simp add: H1_def)
    ultimately show ?thesis
      using ih(1,4) res x by (auto simp: store_read_def)
  qed
qed

lemma deepcopy_level:
  assumes "deepcopy H [] m = (H', m')"
    and "\<forall>a \<in> snd ` set m. a < next_free H"
    and "dict_get (store_read H m) k = Some v"
  shows "\<exists>a. dict_get m' k = Some a \<and> cells H' a = v"
proof -
  have "store_read H' m' = store_read H m"
    using deepcopy_shared [OF assms(1,2)] by simp
  with assms(3) have "map_option (cells H') (dict_get m' k) = Some v"
    by (simp add: dict_get_store_read [symmetric])
  then show ?thesis by auto
qed

lemma deepcopy_keys: "deepcopy H memo m = (H', m') \<Longrightarrow> map fst m' = map fst m"
  by (induction m arbitrary: H memo H' m') (auto split: option.splits prod.splits)

lemma dict_contains_keys: "dict_contains d k \<longleftrightarrow> k \<in> set (map fst d)"
  by (auto simp: dict_contains_def map_of_eq_None_iff)

subsection \<open>Record not found or filtered out\<close>

text \<open>
  C1. Bottom-up extraction at a level whose record lacks a required field looks the
  record up by id together with the plain filter conditions. When that lookup returns
  no record, the lookup by id alone decides: if it returns nothing either, the error is
  the fatal not-found error; if it returns a record, the error is the link/filter type
  mismatch. The method raises exactly that error and never the other one.
\<close>

theorem C1_missing_or_filtered:
  assumes "deepcopy H [] shotgun_data = (H0, tokens0)"
    and "add_current_user_in_store e self tokens0 H0 = Inr (tokens, H1)"
    and "dict_get tokens (sg_data_key_for_folder_obj self) = Some a"
    and "cells H1 a = PDict d"
    and "classify_conditions (fields_to_retrieve e self) (conditions (filters self))
           = (flds, link_map, fltrs)"
    and "\<not> flds \<subseteq> fst ` set d"
    and "dict_get d ''id'' = Some my_id"
    and "first_lookup = sg_find_one sg h (entity_type self) (id_filter_dict fltrs my_id) (Some flds)"
    and "first_lookup = None \<or> first_lookup = Some []"
    and "second_lookup =
           sg_find_one sg (h @ [FindOne (entity_type self) (id_filter_dict fltrs my_id) (Some flds)])
             (entity_type self) (bare_id_filter my_id) None"
  shows "(second_lookup = None \<longrightarrow>
            extract_shotgun_data_upwards e sg self parent shotgun_data H h
              = Inl (TankError_NotFound (entity_type self) my_id)) \<and>
         (second_lookup \<noteq> None \<longrightarrow>
            extract_shotgun_data_upwards e sg self parent shotgun_data H h
              = Inl EntityLinkTypeMismatch)"
proof -
  have present: "dict_contains tokens (sg_data_key_for_folder_obj self)"
    using assms(3) by (simp add: dict_contains_def dict_get_def)
  have "fetch_missing_fields sg self flds fltrs tokens H1 h =
          Inl (missing_or_filtered sg self
                 (h @ [FindOne (entity_type self) (id_filter_dict fltrs my_id) (Some flds)]) my_id)"
    using assms(3,4,6,7,8,9)
    by (auto simp: fetch_missing_fields_def getitem_def Let_def)
  then have "extract_shotgun_data_upwards e sg self parent shotgun_data H h =
          Inl (missing_or_filtered sg self
                 (h @ [FindOne (entity_type self) (id_filter_dict fltrs my_id) (Some flds)]) my_id)"
    using assms(1,2,5) present
    by (simp add: extract_shotgun_data_upwards_def extract_level_def)
  then show ?thesis
    using assms(10) by (simp add: missing_or_filtered_def)
qed

lemma shot_node_simps:
  "entity_type shot_node = ''Shot''"
  "sg_data_key_for_folder_obj shot_node = ''Shot''"
  "get_shotgun_link_fields shot_node = []"
  "filters shot_node = shot_filters"
  "create_with_parent shot_node = False"
  by (simp_all add: shot_node_def)

lemma shot_node_classified:
  "classify_conditions (fields_to_retrieve sample_env shot_node) (conditions (filters shot_node))
     = ({''sg_sequence'', ''code''}, [(''sg_sequence'', sequence_token)],
        [\<lparr>cond_path = ''sg_status_list'', cond_relation = ''is'', cond_values = [PStr ''ip'']\<rparr>])"
  by (simp add: classify_conditions_def classify_condition_def fields_to_retrieve_def
        sample_env_def shot_node_def shot_filters_def insert_commute)

theorem C1_missing_or_filtered_witness:
  "extract_shotgun_data_upwards sample_env sg_empty shot_node None
     (refs_in_store shot_seed) (put_in_store shot_seed) []
     = Inl (TankError_NotFound ''Shot'' (PInt 1)) \<and>
   extract_shotgun_data_upwards sample_env sg_filtered_out shot_node None
     (refs_in_store shot_seed) (put_in_store shot_seed) []
     = Inl EntityLinkTypeMismatch"
proof -
  obtain H0 tokens0 where
    copy: "deepcopy (put_in_store shot_seed) [] (refs_in_store shot_seed) = (H0, tokens0)"
    by (cases "deepcopy (put_in_store shot_seed) [] (refs_in_store shot_seed)")
  have "dict_get (store_read (put_in_store shot_seed) (refs_in_store shot_seed)) ''Shot''
          = Some (PDict [(''type'', PStr ''Shot''), (''id'', PInt 1)])"
    by (simp add: store_read_put_in_store shot_seed_def dict_get_def)
  from deepcopy_level [OF copy refs_in_store_valid this]
  obtain a where
    b: "dict_get tokens0 (sg_data_key_for_folder_obj shot_node) = Some a" and
    b': "cells H0 a = PDict [(''type'', PStr ''Shot''), (''id'', PInt 1)]"
    by (auto simp: shot_node_simps)
  have user: "add_current_user_in_store sample_env shot_node tokens0 H0 = Inr (tokens0, H0)"
    by (simp add: add_current_user_in_store_def shot_node_simps)
  have c: "\<not> {''sg_sequence'', ''code''} \<subseteq> fst ` set [(''type'', PStr ''Shot''), (''id'', PInt 1)]"
    by simp
  have d: "dict_get [(''type'', PStr ''Shot''), (''id'', PInt 1)] ''id'' = Some (PInt 1)"
    by (simp add: dict_get_def)
  have "extract_shotgun_data_upwards sample_env sg_empty shot_node None
     (refs_in_store shot_seed) (put_in_store shot_seed) []
     = Inl (TankError_NotFound ''Shot'' (PInt 1))"
    using C1_missing_or_filtered [OF copy user b b' shot_node_classified c d refl _ refl,
        of sg_empty "[]" None]
    by (simp add: sg_empty_def shot_node_simps)
  moreover have "extract_shotgun_data_upwards sample_env sg_filtered_out shot_node None
     (refs_in_store shot_seed) (put_in_store shot_seed) []
     = Inl EntityLinkTypeMismatch"
    using C1_missing_or_filtered [OF copy user b b' shot_node_classified c d refl _ refl,
        of sg_filtered_out "[]" None]
    by (simp add: sg_filtered_out_def shot_node_simps id_filter_dict_def bare_id_filter_def)
  ultimately show ?thesis by simp
qed

subsection \<open>Candidates of top-down materialization\<close>

lemma add_current_user_present:
  "dict_get sg_data (sg_data_key_for_folder_obj self) = Some v \<Longrightarrow>
   add_current_user e self sg_data = Inr sg_data"
  by (simp add: add_current_user_def dict_contains_def dict_get_def)

lemma shot_fields_to_retrieve: "fields_to_retrieve sample_env shot_node = {''code''}"
  by (simp add: fields_to_retrieve_def sample_env_def shot_node_def)

lemma resolve_shot_filters:
  "dict_get sg_data ''Sequence'' = Some sequence_record \<Longrightarrow>
   resolve_shotgun_filters sample_env (filters shot_node) sg_data = Inr resolved_shot_filters"
  by (simp add: sample_env_def shot_node_def shot_filters_def resolve_filters_spec_def
        sequence_token_def resolved_shot_filters_def)

text \<open>
  C2, as amended. When the working map already holds a record for the level of the node
  and the keys of that record include every field to retrieve (the fields of the name
  expression, its link fields, the name field of the entity type and the additional
  fields), \<open>__get_entities\<close> first resolves the filter of the node against the working
  map: if the resolution raises, the method raises that error; if the filter resolves,
  the method makes no call to Shotgun (the calls made are those made before) and returns
  the list whose only element is that record.
\<close>

theorem C2_reuse_record:
  assumes "dict_get sg_data (sg_data_key_for_folder_obj self) = Some (PDict d)"
    and "get_shotgun_fields self \<union> set (get_shotgun_link_fields self)
           \<union> {get_sg_entity_name_field e (PStr (entity_type self))}
           \<union> set (get_additional_sg_fields self) \<subseteq> fst ` set d"
  shows "get_entities e sg self sg_data h =
           (case resolve_shotgun_filters e (filters self) sg_data of
              Inl err \<Rightarrow> Inl err
            | Inr fltrs \<Rightarrow> Inr ([PDict d], h))"
proof -
  have "fields_to_retrieve e self \<subseteq> fst ` set d"
    using assms(2) by (simp add: fields_to_retrieve_def)
  then show ?thesis
    using assms(1) add_current_user_present [OF assms(1)]
    by (simp add: get_entities_def split: sum.splits)
qed

theorem C2_reuse_record_witness:
  "get_entities sample_env sg_two_shots shot_node full_shot_data []
     = Inr ([PDict [(''type'', PStr ''Shot''), (''id'', PInt 1), (''code'', PStr ''s010'')]], [])"
proof -
  have a: "resolve_shotgun_filters sample_env (filters shot_node) full_shot_data = Inr resolved_shot_filters"
    by (rule resolve_shot_filters) (simp add: dict_get_def full_shot_data_def)
  have b: "dict_get full_shot_data (sg_data_key_for_folder_obj shot_node)
      = Some (PDict [(''type'', PStr ''Shot''), (''id'', PInt 1), (''code'', PStr ''s010'')])"
    by (simp add: dict_get_def full_shot_data_def shot_node_def sequence_record_def)
  have c: "get_shotgun_fields shot_node \<union> set (get_shotgun_link_fields shot_node)
           \<union> {get_sg_entity_name_field sample_env (PStr (entity_type shot_node))}
           \<union> set (get_additional_sg_fields shot_node)
           \<subseteq> fst ` set [(''type'', PStr ''Shot''), (''id'', PInt 1), (''code'', PStr ''s010'')]"
    by (simp add: shot_node_def sample_env_def)
  show ?thesis
    using C2_reuse_record [OF b c, of sg_two_shots "[]"] by (simp add: a)
qed

text \<open>
  C2 as stated fails: the filter is resolved at line 235, before the record is looked
  at, so a working map that holds the whole Shot record but nothing for the Sequence
  that the filter of the Shot folder refers to gives no candidate, the resolution
  raises.
\<close>

theorem C2_counterexample:
  "dict_get shot_only_data (sg_data_key_for_folder_obj shot_node)
     = Some (PDict [(''type'', PStr ''Shot''), (''id'', PInt 1), (''code'', PStr ''s010'')]) \<and>
   fields_to_retrieve sample_env shot_node
     \<subseteq> fst ` set [(''type'', PStr ''Shot''), (''id'', PInt 1), (''code'', PStr ''s010'')] \<and>
   get_entities sample_env sg_two_shots shot_node shot_only_data [] = Inl TankError_Other"
proof -
  have "resolve_shotgun_filters sample_env (filters shot_node) shot_only_data = Inl TankError_Other"
    by (simp add: sample_env_def shot_node_def shot_filters_def resolve_filters_spec_def
          sequence_token_def shot_only_data_def dict_get_def)
  then have "get_entities sample_env sg_two_shots shot_node shot_only_data [] = Inl TankError_Other"
    by (simp add: get_entities_def)
  then show ?thesis
    by (simp add: shot_fields_to_retrieve shot_only_data_def dict_get_def shot_node_simps)
qed

text \<open>
  C8, as amended. Let the filter of the node resolve against the working map. When the
  working map holds a record for the level that lacks a field to retrieve and has an id,
  \<open>__get_entities\<close> makes one call \<open>find\<close> whose filter is the resolved filter with the
  condition \<open>id is\<close> the id of that record added, asking for the whole field set (the
  fields of the name expression, its link fields, the name field of the entity type and
  the additional fields). When the working map holds nothing for the level and the
  entity type is not HumanUser, the one call uses the resolved filter as it is, with the
  same field set. Either way the candidates are the list that \<open>find\<close> returns, of any
  length.
\<close>

theorem C8_query_filter:
  assumes "resolve_shotgun_filters e (filters self) sg_data = Inr fltrs"
    and "flds = get_shotgun_fields self \<union> set (get_shotgun_link_fields self)
                  \<union> {get_sg_entity_name_field e (PStr (entity_type self))}
                  \<union> set (get_additional_sg_fields self)"
    and "narrowed = (\<lambda>entity_id. fltrs\<lparr>conditions := conditions fltrs @
           [\<lparr>cond_path = ''id'', cond_relation = ''is'', cond_values = [entity_id]\<rparr>]\<rparr>)"
  shows "(\<forall>d entity_id.
            dict_get sg_data (sg_data_key_for_folder_obj self) = Some (PDict d) \<and>
            \<not> flds \<subseteq> fst ` set d \<and> dict_get d ''id'' = Some entity_id \<longrightarrow>
            get_entities e sg self sg_data h =
              Inr (map PDict (sg_find sg h (entity_type self) (narrowed entity_id) flds),
                   h @ [Find (entity_type self) (narrowed entity_id) flds])) \<and>
         (dict_get sg_data (sg_data_key_for_folder_obj self) = None \<and>
          entity_type self \<noteq> ''HumanUser'' \<longrightarrow>
            get_entities e sg self sg_data h =
              Inr (map PDict (sg_find sg h (entity_type self) fltrs flds),
                   h @ [Find (entity_type self) fltrs flds]))"
proof -
  have flds: "flds = fields_to_retrieve e self"
    using assms(2) by (simp add: fields_to_retrieve_def)
  show ?thesis
  proof (intro conjI allI impI)
    fix d entity_id
    assume a: "dict_get sg_data (sg_data_key_for_folder_obj self) = Some (PDict d) \<and>
              \<not> flds \<subseteq> fst ` set d \<and> dict_get d ''id'' = Some entity_id"
    then have "add_current_user e self sg_data = Inr sg_data"
      by (simp add: add_current_user_present)
    with a assms(1,3) flds show "get_entities e sg self sg_data h =
                Inr (map PDict (sg_find sg h (entity_type self) (narrowed entity_id) flds),
                     h @ [Find (entity_type self) (narrowed entity_id) flds])"
      by (simp add: get_entities_def id_condition_def Let_def)
  next
    assume "dict_get sg_data (sg_data_key_for_folder_obj self) = None \<and>
            entity_type self \<noteq> ''HumanUser''"
    with assms(1) flds show "get_entities e sg self sg_data h =
                Inr (map PDict (sg_find sg h (entity_type self) fltrs flds),
                     h @ [Find (entity_type self) fltrs flds])"
      by (simp add: get_entities_def add_current_user_def Let_def)
  qed
qed

theorem C8_query_filter_witness:
  "get_entities sample_env sg_two_shots shot_node partial_shot_data [] =
     Inr (map PDict (sg_find sg_two_shots [] ''Shot''
            (resolved_shot_filters\<lparr>conditions := conditions resolved_shot_filters @
               [\<lparr>cond_path = ''id'', cond_relation = ''is'', cond_values = [PInt 1]\<rparr>]\<rparr>)
            {''code''}),
          [Find ''Shot''
            (resolved_shot_filters\<lparr>conditions := conditions resolved_shot_filters @
               [\<lparr>cond_path = ''id'', cond_relation = ''is'', cond_values = [PInt 1]\<rparr>]\<rparr>)
            {''code''}]) \<and>
   get_entities sample_env sg_two_shots shot_node sequence_data [] =
     Inr (map PDict (sg_find sg_two_shots [] ''Shot'' resolved_shot_filters {''code''}),
          [Find ''Shot'' resolved_shot_filters {''code''}])"
proof -
  have a: "resolve_shotgun_filters sample_env (filters shot_node) partial_shot_data = Inr resolved_shot_filters"
    by (rule resolve_shot_filters) (simp add: dict_get_def partial_shot_data_def)
  have a': "resolve_shotgun_filters sample_env (filters shot_node) sequence_data = Inr resolved_shot_filters"
    by (rule resolve_shot_filters) (simp add: dict_get_def sequence_data_def)
  have f: "get_shotgun_fields shot_node \<union> set (get_shotgun_link_fields shot_node)
                  \<union> {get_sg_entity_name_field sample_env (PStr (entity_type shot_node))}
                  \<union> set (get_additional_sg_fields shot_node) = {''code''}"
    by (simp add: shot_node_def sample_env_def)
  show ?thesis
    using C8_query_filter [OF a f [symmetric] refl, of sg_two_shots "[]"]
      C8_query_filter [OF a' f [symmetric] refl, of sg_two_shots "[]"]
    by (simp add: dict_get_def partial_shot_data_def sequence_data_def shot_node_simps)
qed

text \<open>
  C8 as stated fails for a HumanUser level: with no record for the level in the working
  map, lines 253 to 269 take the current user as the record of the level, and here, the
  user holding every field, no query is made at all.
\<close>

theorem C8_counterexample:
  "dict_get [] (sg_data_key_for_folder_obj user_node) = None \<and>
   get_entities user_env sg_two_shots user_node [] [] = Inr ([PDict bob], [])"
  by (simp add: get_entities_def add_current_user_def fields_to_retrieve_def dict_get_def
        dict_contains_def user_env_def user_node_def sample_env_def shot_node_def
        resolve_filters_spec_def bob_def)

subsection \<open>Classification of the filter conditions\<close>

lemma map_of_dict_set: "map_of (dict_set d k v) = (map_of d)(k \<mapsto> v)"
  by (induction d) auto

lemma classify_condition_cases:
  "classify_condition (flds, link_map, fltrs) c =
     (if ignored_condition c then (flds, link_map, fltrs)
      else case first_token c of
             Some t \<Rightarrow> (insert (cond_path c) flds, dict_set link_map (cond_path c) t, fltrs)
           | None \<Rightarrow> (flds, link_map, fltrs @ [c]))"
  by (auto simp: classify_condition_def ignored_condition_def first_token_def
        split: list.splits pyval.splits)

lemma classify_conditions_snoc:
  "classify_conditions flds (cs @ [c]) = classify_condition (classify_conditions flds cs) c"
  by (simp add: classify_conditions_def)

text \<open>
  C9, as amended. In bottom-up extraction a condition whose value list is empty, or
  whose path starts with the marker \<open>$FROM$\<close>, is ignored. Any other condition is read
  by the first element of its value list alone: when that is a Filter Token, the path of
  the condition is added to the fields to fetch and the link map sends the path to the
  token (the last such condition of a path wins); when it is a literal, the condition is
  kept whole, in order, among the plain query filters, whatever follows in its value
  list.
\<close>

theorem C9_classification:
  assumes "classify_conditions flds cs = (flds', link_map, fltrs)"
  shows "fltrs = [c \<leftarrow> cs. \<not> ignored_condition c \<and> first_token c = None] \<and>
         flds' = flds \<union> fst ` set (token_links cs) \<and>
         map_of link_map = map_of (rev (token_links cs))"
  using assms
proof (induction cs arbitrary: flds' link_map fltrs rule: rev_induct)
  case Nil
  then show ?case
    by (simp add: classify_conditions_def token_links_def map_filter_simps)
next
  case (snoc c cs)
  obtain F L P where st: "classify_conditions flds cs = (F, L, P)"
    by (cases "classify_conditions flds cs") auto
  note ih = snoc.IH [OF st]
  have step: "classify_condition (F, L, P) c = (flds', link_map, fltrs)"
    using snoc.prems st by (simp add: classify_conditions_snoc)
  have links: "token_links (cs @ [c]) =
      token_links cs @ (if ignored_condition c then []
                        else case first_token c of Some t \<Rightarrow> [(cond_path c, t)] | None \<Rightarrow> [])"
    by (auto simp: token_links_def map_filter_def split: option.splits)
  show ?case
  proof (cases "ignored_condition c")
    case True
    then show ?thesis
      using step ih links by (auto simp: classify_condition_cases)
  next
    case False
    show ?thesis
    proof (cases "first_token c")
      case None
      then show ?thesis
        using False step ih links by (auto simp: classify_condition_cases)
    next
      case (Some t)
      then show ?thesis
        using False step ih links
        by (auto simp: classify_condition_cases map_of_dict_set)
    qed
  qed
qed

text \<open>
  C9 as stated fails: a condition whose first value is a Filter Token does not become a
  mapping when its path starts with \<open>$FROM$\<close> (line 378).
\<close>

theorem C9_counterexample:
  "cond_values from_step_condition = [PToken sequence_token] \<and>
   classify_conditions {''code''} [from_step_condition] = ({''code''}, [], [])"
  by (simp add: from_step_condition_def classify_conditions_def classify_condition_def)

theorem C9_classification_witness:
  "classify_conditions {''code''}
      (from_step_condition # mixed_condition # conditions shot_filters)
     = ({''sg_sequence'', ''code''}, [(''sg_sequence'', sequence_token)],
        [mixed_condition, \<lparr>cond_path = ''sg_status_list'', cond_relation = ''is'', cond_values = [PStr ''ip'']\<rparr>]) \<and>
   [mixed_condition, \<lparr>cond_path = ''sg_status_list'', cond_relation = ''is'', cond_values = [PStr ''ip'']\<rparr>]
     = [c \<leftarrow> from_step_condition # mixed_condition # conditions shot_filters.
          \<not> ignored_condition c \<and> first_token c = None]"
proof -
  have a: "classify_conditions {''code''}
      (from_step_condition # mixed_condition # conditions shot_filters)
     = ({''sg_sequence'', ''code''}, [(''sg_sequence'', sequence_token)],
        [mixed_condition, \<lparr>cond_path = ''sg_status_list'', cond_relation = ''is'', cond_values = [PStr ''ip'']\<rparr>])"
    by (simp add: classify_conditions_def classify_condition_def from_step_condition_def
          mixed_condition_def shot_filters_def)
  show ?thesis
    using C9_classification [OF a] a by simp
qed

subsection \<open>Promotion of linked values\<close>

lemma promote_links_append:
  "promote_links self st (xs @ ys) =
     (case promote_links self st xs of
        Inl err \<Rightarrow> Inl err
      | Inr st' \<Rightarrow> promote_links self st' ys)"
  by (induction xs arbitrary: st) (auto split: sum.splits)

lemma promote_link_no_value:
  assumes "dict_get tokens (sg_data_key_for_folder_obj self) = Some a"
    and "cells H a = PDict d"
    and "dict_get d field = None \<or> dict_get d field = Some PNone"
  shows "promote_link self (tokens, H) (field, link_obj) = Inl EntityLinkTypeMismatch"
  using assms by (auto simp: promote_link_def)

text \<open>
  C5, as amended. In bottom-up extraction at a level that has a record in the working
  map, when the fetch of missing fields has raised nothing and the loop over the link
  map, having promoted the fields before it without error, reaches a field named by a
  token condition that the record of this level, as it is then, does not hold or holds
  with the value \<open>None\<close>, the link/filter type mismatch error is raised. (The entries
  \<open>before\<close> are those the loop has promoted already, \<open>later\<close> those it never reaches.)
\<close>

theorem C5_no_value:
  assumes "deepcopy H [] shotgun_data = (H0, tokens0)"
    and "add_current_user_in_store e self tokens0 H0 = Inr (tokens, H1)"
    and "dict_contains tokens (sg_data_key_for_folder_obj self)"
    and "classify_conditions (fields_to_retrieve e self) (conditions (filters self))
           = (flds, before @ (field, link_obj) # later, fltrs)"
    and "fetch_missing_fields sg self flds fltrs tokens H1 h = Inr (H2, h')"
    and "promote_links self (tokens, H2) before = Inr (promoted, H3)"
    and "dict_get promoted (sg_data_key_for_folder_obj self) = Some a"
    and "cells H3 a = PDict d"
    and "dict_get d field = None \<or> dict_get d field = Some PNone"
  shows "extract_shotgun_data_upwards e sg self parent shotgun_data H h = Inl EntityLinkTypeMismatch"
proof -
  have "promote_link self (promoted, H3) (field, link_obj) = Inl EntityLinkTypeMismatch"
    using assms(7,8,9) by (rule promote_link_no_value)
  then have "promote_links self (tokens, H2) (before @ (field, link_obj) # later)
               = Inl EntityLinkTypeMismatch"
    using assms(6) by (simp add: promote_links_append)
  then show ?thesis
    using assms(1-5)
    by (simp add: extract_shotgun_data_upwards_def extract_level_def)
qed

lemma token_only_shot_node_simps:
  "entity_type token_only_shot_node = ''Shot''"
  "sg_data_key_for_folder_obj token_only_shot_node = ''Shot''"
  "fields_to_retrieve sample_env token_only_shot_node = {''code''}"
  "conditions (filters token_only_shot_node) =
     [\<lparr>cond_path = ''sg_sequence'', cond_relation = ''is'', cond_values = [PToken sequence_token]\<rparr>]"
  by (simp_all add: token_only_shot_node_def shot_node_def fields_to_retrieve_def sample_env_def)

lemma token_only_classified:
  "classify_conditions (fields_to_retrieve sample_env token_only_shot_node)
     (conditions (filters token_only_shot_node))
   = ({''sg_sequence'', ''code''}, [(''sg_sequence'', sequence_token)], [])"
  by (simp add: token_only_shot_node_simps classify_conditions_def classify_condition_def
        insert_commute)

text \<open>
  The copy of a working map with the one level Shot, holding a Shot record with a given
  value of \<open>sg_sequence\<close>: one new object.
\<close>

lemma copy_of_shot_record:
  assumes "deepcopy (put_in_store [(''Shot'', shot_record v)]) []
             (refs_in_store [(''Shot'', shot_record v)]) = (H0, tokens0)"
  shows "\<exists>a. tokens0 = [(''Shot'', a)] \<and> a < next_free H0 \<and> cells H0 a = shot_record v"
proof -
  let ?d = "[(''Shot'', shot_record v)]"
  note c = deepcopy_shared [OF assms refs_in_store_valid, simplified]
  have "map fst tokens0 = [''Shot'']"
    using deepcopy_keys [OF assms] by (simp add: refs_in_store_def)
  then obtain a where t: "tokens0 = [(''Shot'', a)]"
    by (cases tokens0) auto
  have "store_read H0 tokens0 = ?d"
    using c by (simp add: store_read_put_in_store)
  with t c show ?thesis by (simp add: store_read_def)
qed

lemma token_only_no_fetch:
  "cells H a = shot_record v \<Longrightarrow>
   fetch_missing_fields sg token_only_shot_node {''sg_sequence'', ''code''} []
     [(''Shot'', a)] H h = Inr (H, h)"
  by (simp add: fetch_missing_fields_def dict_get_def token_only_shot_node_simps
        shot_record_def)

lemma extract_token_only:
  "\<exists>a H0. a < next_free H0 \<and> cells H0 a = shot_record v \<and>
     extract_shotgun_data_upwards sample_env sg token_only_shot_node None
       (refs_in_store [(''Shot'', shot_record v)]) (put_in_store [(''Shot'', shot_record v)]) h =
     (case promote_link token_only_shot_node ([(''Shot'', a)], H0)
             (''sg_sequence'', sequence_token) of
        Inl err \<Rightarrow> Inl err
      | Inr (tokens, H') \<Rightarrow> Inr (tokens, H', h))"
proof -
  obtain H0 tokens0 where
    copy: "deepcopy (put_in_store [(''Shot'', shot_record v)]) []
             (refs_in_store [(''Shot'', shot_record v)]) = (H0, tokens0)"
    by (cases "deepcopy (put_in_store [(''Shot'', shot_record v)]) []
             (refs_in_store [(''Shot'', shot_record v)])")
  from copy_of_shot_record [OF copy] obtain a where
    a: "tokens0 = [(''Shot'', a)]" "a < next_free H0" "cells H0 a = shot_record v"
    by blast
  have "extract_shotgun_data_upwards sample_env sg token_only_shot_node None
       (refs_in_store [(''Shot'', shot_record v)]) (put_in_store [(''Shot'', shot_record v)]) h =
     (case promote_link token_only_shot_node ([(''Shot'', a)], H0)
             (''sg_sequence'', sequence_token) of
        Inl err \<Rightarrow> Inl err
      | Inr (tokens, H') \<Rightarrow> Inr (tokens, H', h))"
    by (simp add: extract_shotgun_data_upwards_def copy a(1) extract_level_def
          add_current_user_in_store_def dict_contains_def token_only_classified
          token_only_no_fetch [OF a(3)] token_only_shot_node_simps(1,2)
          split: sum.splits)
  with a show ?thesis by blast
qed

theorem C5_no_value_witness:
  "extract_shotgun_data_upwards sample_env sg_empty token_only_shot_node None
     (refs_in_store [(''Shot'', shot_record PNone)]) (put_in_store [(''Shot'', shot_record PNone)]) []
   = Inl EntityLinkTypeMismatch"
proof -
  obtain H0 tokens0 where
    copy: "deepcopy (put_in_store [(''Shot'', shot_record PNone)]) []
             (refs_in_store [(''Shot'', shot_record PNone)]) = (H0, tokens0)"
    by (cases "deepcopy (put_in_store [(''Shot'', shot_record PNone)]) []
             (refs_in_store [(''Shot'', shot_record PNone)])")
  from copy_of_shot_record [OF copy] obtain a where
    a: "tokens0 = [(''Shot'', a)]" "a < next_free H0" "cells H0 a = shot_record PNone"
    by blast
  have user: "add_current_user_in_store sample_env token_only_shot_node tokens0 H0
                = Inr (tokens0, H0)"
    by (simp add: add_current_user_in_store_def token_only_shot_node_simps)
  have b: "dict_contains tokens0 (sg_data_key_for_folder_obj token_only_shot_node)"
    by (simp add: dict_contains_def token_only_shot_node_simps a(1))
  have c: "classify_conditions (fields_to_retrieve sample_env token_only_shot_node)
     (conditions (filters token_only_shot_node))
   = ({''sg_sequence'', ''code''}, [] @ (''sg_sequence'', sequence_token) # [], [])"
    using token_only_classified by simp
  have fetch: "fetch_missing_fields sg_empty token_only_shot_node {''sg_sequence'', ''code''} []
     tokens0 H0 [] = Inr (H0, [])"
    unfolding a(1) by (rule token_only_no_fetch [OF a(3)])
  have d: "promote_links token_only_shot_node (tokens0, H0) [] = Inr (tokens0, H0)"
    by simp
  have f: "dict_get tokens0 (sg_data_key_for_folder_obj token_only_shot_node) = Some a"
    by (simp add: dict_get_def token_only_shot_node_simps a(1))
  have g: "cells H0 a = PDict [(''type'', PStr ''Shot''), (''id'', PInt 1),
            (''code'', PStr ''s010''), (''sg_sequence'', PNone)]"
    by (simp add: a(3) shot_record_def)
  show ?thesis
    by (rule C5_no_value [OF copy user b c fetch d f g]) (simp add: dict_get_def)
qed

text \<open>
  C5 as stated fails for empty values other than \<open>None\<close>: the test of line 454 is
  \<open>value is None\<close>, so here an empty string is stored as a scalar and an empty list is
  appended, and the extraction returns.
\<close>

theorem C5_counterexample:
  "read_extracted (extract_shotgun_data_upwards sample_env sg_empty token_only_shot_node None
     (refs_in_store [(''Shot'', shot_record (PStr []))])
     (put_in_store [(''Shot'', shot_record (PStr []))]) [])
     = Inr ([(''Shot'', shot_record (PStr [])), (''Sequence'', PStr [])], []) \<and>
   read_extracted (extract_shotgun_data_upwards sample_env sg_empty token_only_shot_node None
     (refs_in_store [(''Shot'', shot_record (PList []))])
     (put_in_store [(''Shot'', shot_record (PList []))]) [])
     = Inr ([(''Shot'', shot_record (PList [])), (''Sequence'', PList [])], [])"
proof -
  have "read_extracted (extract_shotgun_data_upwards sample_env sg_empty token_only_shot_node None
     (refs_in_store [(''Shot'', shot_record v)]) (put_in_store [(''Shot'', shot_record v)]) [])
     = Inr ([(''Shot'', shot_record v), (''Sequence'', v)], [])"
    if "v = PStr [] \<or> v = PList []" for v
  proof -
    from extract_token_only [of v sg_empty "[]"] obtain a H0 where
      a: "a < next_free H0" "cells H0 a = shot_record v" and
      run: "extract_shotgun_data_upwards sample_env sg_empty token_only_shot_node None
       (refs_in_store [(''Shot'', shot_record v)]) (put_in_store [(''Shot'', shot_record v)]) [] =
       (case promote_link token_only_shot_node ([(''Shot'', a)], H0)
             (''sg_sequence'', sequence_token) of
          Inl err \<Rightarrow> Inl err
        | Inr (tokens, H') \<Rightarrow> Inr (tokens, H', []))"
      by blast
    have rec: "cells H0 a = PDict [(''type'', PStr ''Shot''), (''id'', PInt 1),
            (''code'', PStr ''s010''), (''sg_sequence'', v)]"
      by (simp add: a(2) shot_record_def)
    show ?thesis
      unfolding run using that a(1)
      by (auto simp: read_extracted_def promote_link_def rec dict_get_def slot_of_def
            token_only_shot_node_simps(1,2) sequence_token_def store_read_def alloc_def
            store_write_def shot_record_def)
  qed
  then show ?thesis by simp
qed

lemma dict_update_snoc: "dict_update d (e @ [(k, v)]) = dict_set (dict_update d e) k v"
  by (simp add: dict_update_def)

lemma map_of_dict_update: "map_of (dict_update d e) = map_of d ++ map_of (rev e)"
proof (induction e rule: rev_induct)
  case Nil
  then show ?case by (simp add: dict_update_def)
next
  case (snoc x e)
  obtain k v where x: "x = (k, v)" by (cases x)
  show ?case
    unfolding x dict_update_snoc
    by (rule ext) (simp add: map_of_dict_set snoc.IH map_add_def)
qed

text \<open>
  C4, as amended. One pass of the loop over the link map, for a field whose value \<open>v\<close>
  in the record of this level is present and not \<open>None\<close>. If \<open>v\<close> is a dictionary, it is
  taken to be a link and must have a \<open>type\<close>: if that type differs from the entity type
  of the target level, the mismatch error is raised and nothing is merged; if it is the
  entity type of the target level, \<open>v\<close> is merged field by field into the object of the
  target level (\<open>map_of_dict_update\<close>: its fields override, the other fields of the object
  stay), a new object when the level has no entry yet and the object the level refers
  to when that is a dictionary. If \<open>v\<close> is a list, it is appended to the object of the
  target level, a new list when the level has no entry yet and the object the level
  refers to when that is a list. Any other \<open>v\<close> is assigned to the target level.
\<close>

theorem C4_promote_link:
  assumes "dict_get tokens (sg_data_key_for_folder_obj self) = Some a"
    and "cells H a = PDict d"
    and "dict_get d field = Some v"
    and "v \<noteq> PNone"
    and "data_key = get_sg_data_key link_obj"
    and "slot = dict_get tokens data_key"
  shows "(\<forall>link ty. v = PDict link \<and> dict_get link ''type'' = Some ty \<and>
                   ty \<noteq> PStr (get_entity_type link_obj) \<longrightarrow>
            promote_link self (tokens, H) (field, link_obj) = Inl EntityLinkTypeMismatch) \<and>
         (\<forall>link. v = PDict link \<and>
                dict_get link ''type'' = Some (PStr (get_entity_type link_obj)) \<longrightarrow>
            (slot = None \<longrightarrow>
               promote_link self (tokens, H) (field, link_obj)
                 = Inr (dict_set tokens data_key (next_free H),
                        alloc H (PDict (dict_update [] link)))) \<and>
            (\<forall>target old. slot = Some target \<and> cells H target = PDict old \<longrightarrow>
               promote_link self (tokens, H) (field, link_obj)
                 = Inr (tokens, store_write H target (PDict (dict_update old link))))) \<and>
         (\<forall>links. v = PList links \<longrightarrow>
            (slot = None \<longrightarrow>
               promote_link self (tokens, H) (field, link_obj)
                 = Inr (dict_set tokens data_key (next_free H), alloc H (PList links))) \<and>
            (\<forall>target old. slot = Some target \<and> cells H target = PList old \<longrightarrow>
               promote_link self (tokens, H) (field, link_obj)
                 = Inr (tokens, store_write H target (PList (old @ links))))) \<and>
         (is_scalar v \<longrightarrow>
            promote_link self (tokens, H) (field, link_obj)
              = Inr (dict_set tokens data_key (next_free H), alloc H v))"
  using assms
  by (cases v)
     (auto simp: promote_link_def getitem_def is_scalar_def slot_of_def alloc_def store_write_def)

lemma shot_record_level:
  "dict_get (refs_in_store ((''Shot'', shot_record x) # rest))
     (sg_data_key_for_folder_obj shot_node) = Some 0"
  "cells (put_in_store ((''Shot'', shot_record x) # rest)) 0
     = PDict [(''type'', PStr ''Shot''), (''id'', PInt 1), (''code'', PStr ''s010''),
              (''sg_sequence'', x)]"
  "dict_get [(''type'', PStr ''Shot''), (''id'', PInt 1), (''code'', PStr ''s010''),
             (''sg_sequence'', x)] ''sg_sequence'' = Some x"
  by (simp_all add: refs_in_store_def put_in_store_def dict_get_def shot_node_simps
        shot_record_def upt_conv_Cons del: upt_Suc)

theorem C4_promote_link_witness:
  "read_back (promote_link shot_node
      (refs_in_store [(''Shot'', shot_record (PDict sequence_link))],
       put_in_store [(''Shot'', shot_record (PDict sequence_link))])
      (''sg_sequence'', sequence_token))
     = Inr [(''Shot'', shot_record (PDict sequence_link)), (''Sequence'', PDict sequence_link)] \<and>
   read_back (promote_link shot_node
      (refs_in_store [(''Shot'', shot_record (PDict sequence_link)),
                      (''Sequence'', PDict [(''code'', PStr ''seq'')])],
       put_in_store [(''Shot'', shot_record (PDict sequence_link)),
                     (''Sequence'', PDict [(''code'', PStr ''seq'')])])
      (''sg_sequence'', sequence_token))
     = Inr [(''Shot'', shot_record (PDict sequence_link)),
            (''Sequence'', PDict ((''code'', PStr ''seq'') # sequence_link))] \<and>
   promote_link shot_node
      (refs_in_store [(''Shot'', shot_record (PDict sequence_link))],
       put_in_store [(''Shot'', shot_record (PDict sequence_link))])
      (''sg_sequence'', \<lparr>get_sg_data_key = ''Asset'', get_entity_type = ''Asset''\<rparr>)
     = Inl EntityLinkTypeMismatch \<and>
   read_back (promote_link shot_node
      (refs_in_store [(''Shot'', shot_record (PList [PDict sequence_link])),
                      (''Sequence'', PList [PInt 3])],
       put_in_store [(''Shot'', shot_record (PList [PDict sequence_link])),
                     (''Sequence'', PList [PInt 3])])
      (''sg_sequence'', sequence_token))
     = Inr [(''Shot'', shot_record (PList [PDict sequence_link])),
            (''Sequence'', PList [PInt 3, PDict sequence_link])] \<and>
   read_back (promote_link shot_node
      (refs_in_store [(''Shot'', shot_record (PStr ''seq'')), (''Sequence'', PInt 3)],
       put_in_store [(''Shot'', shot_record (PStr ''seq'')), (''Sequence'', PInt 3)])
      (''sg_sequence'', sequence_token))
     = Inr [(''Shot'', shot_record (PStr ''seq'')), (''Sequence'', PStr ''seq'')]"
proof -
  have upd: "dict_update [] sequence_link = sequence_link"
    "dict_update [(''code'', PStr ''seq'')] sequence_link = (''code'', PStr ''seq'') # sequence_link"
    by (simp_all add: dict_update_def sequence_link_def)
  have ty: "dict_get sequence_link ''type'' = Some (PStr ''Sequence'')"
    by (simp add: sequence_link_def dict_get_def)
  have 1: "promote_link shot_node
      (refs_in_store [(''Shot'', shot_record (PDict sequence_link))],
       put_in_store [(''Shot'', shot_record (PDict sequence_link))])
      (''sg_sequence'', sequence_token)
     = Inr (dict_set (refs_in_store [(''Shot'', shot_record (PDict sequence_link))]) ''Sequence'' 1,
            alloc (put_in_store [(''Shot'', shot_record (PDict sequence_link))])
              (PDict sequence_link))"
    using C4_promote_link [OF shot_record_level(1) [of "PDict sequence_link" "[]"]
        shot_record_level(2) [of "PDict sequence_link" "[]"] shot_record_level(3) [of "PDict sequence_link"] _ refl refl,
        of sequence_token] ty
    by (simp add: upd sequence_token_def refs_in_store_def dict_get_def put_in_store_def)
  have 2: "promote_link shot_node
      (refs_in_store [(''Shot'', shot_record (PDict sequence_link)),
                      (''Sequence'', PDict [(''code'', PStr ''seq'')])],
       put_in_store [(''Shot'', shot_record (PDict sequence_link)),
                     (''Sequence'', PDict [(''code'', PStr ''seq'')])])
      (''sg_sequence'', sequence_token)
     = Inr (refs_in_store [(''Shot'', shot_record (PDict sequence_link)),
                      (''Sequence'', PDict [(''code'', PStr ''seq'')])],
            store_write (put_in_store [(''Shot'', shot_record (PDict sequence_link)),
                     (''Sequence'', PDict [(''code'', PStr ''seq'')])]) 1
              (PDict ((''code'', PStr ''seq'') # sequence_link)))"
    using C4_promote_link [OF shot_record_level(1) [of "PDict sequence_link" "[(''Sequence'', PDict [(''code'', PStr ''seq'')])]"]
        shot_record_level(2) [of "PDict sequence_link" "[(''Sequence'', PDict [(''code'', PStr ''seq'')])]"] shot_record_level(3) [of "PDict sequence_link"] _ refl refl,
        of sequence_token] ty
    by (simp add: upd sequence_token_def refs_in_store_def dict_get_def put_in_store_def
          upt_conv_Cons)
  have 3: "promote_link shot_node
      (refs_in_store [(''Shot'', shot_record (PDict sequence_link))],
       put_in_store [(''Shot'', shot_record (PDict sequence_link))])
      (''sg_sequence'', \<lparr>get_sg_data_key = ''Asset'', get_entity_type = ''Asset''\<rparr>)
     = Inl EntityLinkTypeMismatch"
    using C4_promote_link [OF shot_record_level(1) [of "PDict sequence_link" "[]"]
        shot_record_level(2) [of "PDict sequence_link" "[]"] shot_record_level(3) [of "PDict sequence_link"] _ refl refl,
        of "\<lparr>get_sg_data_key = ''Asset'', get_entity_type = ''Asset''\<rparr>"] ty
    by simp
  have 4: "promote_link shot_node
      (refs_in_store [(''Shot'', shot_record (PList [PDict sequence_link])),
                      (''Sequence'', PList [PInt 3])],
       put_in_store [(''Shot'', shot_record (PList [PDict sequence_link])),
                     (''Sequence'', PList [PInt 3])])
      (''sg_sequence'', sequence_token)
     = Inr (refs_in_store [(''Shot'', shot_record (PList [PDict sequence_link])),
                      (''Sequence'', PList [PInt 3])],
            store_write (put_in_store [(''Shot'', shot_record (PList [PDict sequence_link])),
                     (''Sequence'', PList [PInt 3])]) 1
              (PList [PInt 3, PDict sequence_link]))"
    using C4_promote_link [OF shot_record_level(1) [of "PList [PDict sequence_link]" "[(''Sequence'', PList [PInt 3])]"]
        shot_record_level(2) [of "PList [PDict sequence_link]" "[(''Sequence'', PList [PInt 3])]"] shot_record_level(3) [of "PList [PDict sequence_link]"] _ refl refl,
        of sequence_token]
    by (simp add: sequence_token_def refs_in_store_def dict_get_def put_in_store_def
          upt_conv_Cons)
  have 5: "promote_link shot_node
      (refs_in_store [(''Shot'', shot_record (PStr ''seq'')), (''Sequence'', PInt 3)],
       put_in_store [(''Shot'', shot_record (PStr ''seq'')), (''Sequence'', PInt 3)])
      (''sg_sequence'', sequence_token)
     = Inr (dict_set (refs_in_store [(''Shot'', shot_record (PStr ''seq'')), (''Sequence'', PInt 3)])
              ''Sequence'' 2,
            alloc (put_in_store [(''Shot'', shot_record (PStr ''seq'')), (''Sequence'', PInt 3)])
              (PStr ''seq''))"
    using C4_promote_link [OF shot_record_level(1) [of "PStr ''seq''" "[(''Sequence'', PInt 3)]"]
        shot_record_level(2) [of "PStr ''seq''" "[(''Sequence'', PInt 3)]"] shot_record_level(3) [of "PStr ''seq''"] _ refl refl,
        of sequence_token]
    by (simp add: is_scalar_def sequence_token_def put_in_store_def numeral_2_eq_2)
  show ?thesis
    unfolding 1 2 3 4 5
    by (simp add: read_back_def store_read_def refs_in_store_def put_in_store_def alloc_def
          store_write_def upt_conv_Cons numeral_2_eq_2)
qed

text \<open>
  C4 as stated fails: a dictionary without \<open>type\<close> is not a link of the wrong type, yet
  it is not merged, line 467 raises \<open>KeyError\<close>; and a link of the right type is not
  merged into a target level that holds a list, \<open>update\<close> not being a method of lists.
\<close>

theorem C4_counterexample:
  "promote_link shot_node
      (refs_in_store [(''Shot'', shot_record (PDict [(''id'', PInt 7)]))],
       put_in_store [(''Shot'', shot_record (PDict [(''id'', PInt 7)]))])
      (''sg_sequence'', sequence_token)
     = Inl (KeyError ''type'') \<and>
   promote_link shot_node
      (refs_in_store [(''Shot'', shot_record (PDict sequence_link)), (''Sequence'', PList [])],
       put_in_store [(''Shot'', shot_record (PDict sequence_link)), (''Sequence'', PList [])])
      (''sg_sequence'', sequence_token)
     = Inl AttributeError"
  by (simp add: promote_link_def getitem_def dict_get_def shot_node_simps shot_record_def
        sequence_link_def sequence_token_def refs_in_store_def put_in_store_def slot_of_def
        upt_conv_Cons)

text \<open>
  Two levels that are one object stay one object in the copy, and a link promoted to one
  of them shows in both.
\<close>

lemma promote_link_shared_object:
  "read_back (promote_link shot_node
      ([(''Shot'', 0), (''Sequence'', 1), (''Scene'', 1)],
       put_in_store [(''Shot'', shot_record (PDict sequence_link)),
                     (''Sequence'', PDict [(''code'', PStr ''seq'')])])
      (''sg_sequence'', sequence_token))
   = Inr [(''Shot'', shot_record (PDict sequence_link)),
          (''Sequence'', PDict ((''code'', PStr ''seq'') # sequence_link)),
          (''Scene'', PDict ((''code'', PStr ''seq'') # sequence_link))]"
  by (simp add: read_back_def promote_link_def getitem_def dict_get_def shot_node_simps
        shot_record_def sequence_link_def sequence_token_def put_in_store_def slot_of_def
        store_read_def store_write_def dict_update_def)

lemma deepcopy_shared_object:
  "snd (deepcopy (put_in_store [(''Shot'', shot_record v), (''Sequence'', w)]) []
          [(''Shot'', 0), (''Sequence'', 1), (''Scene'', 1)])
   = [(''Shot'', 2), (''Sequence'', 3), (''Scene'', 3)]"
  by (simp add: put_in_store_def)

subsection \<open>Entries of a path\<close>

lemma entries_loop_append:
  "entries_loop e sg self path_fields st (xs @ ys) =
     (case entries_loop e sg self path_fields st xs of
        Inl err \<Rightarrow> Inl err
      | Inr st' \<Rightarrow> entries_loop e sg self path_fields st' ys)"
  by (induction e sg self path_fields st xs rule: entries_loop.induct)
     (auto split: sum.splits error.splits prod.splits)

lemma entries_loop_other:
  "entries_loop e sg self path_fields st (xs @ OtherFolder # ys) =
   entries_loop e sg self path_fields st (xs @ ys)"
  by (simp add: entries_loop_append split: sum.splits)

lemma entries_loop_others:
  "entries_loop e sg self path_fields st (replicate n OtherFolder) = Inr st"
  by (induction n) auto

lemma entries_loop_grows:
  "entries_loop e sg self path_fields (sg_data, entries, secondary, h) chain
     = Inr (sg_data', entries', secondary', h') \<Longrightarrow>
   length entries \<le> length entries' \<and> (length entries' = length entries \<longrightarrow> secondary' = secondary)"
proof (induction chain arbitrary: sg_data entries secondary h)
  case Nil
  then show ?case by simp
next
  case (Cons f chain)
  show ?case
  proof (cases f)
    case OtherFolder
    with Cons show ?thesis by simp
  next
    case (EntityFolder folder_obj)
    show ?thesis
    proof (cases "get_entity_from_fields e sg folder_obj path_fields sg_data h")
      case (Inl err)
      with Cons.prems EntityFolder have "err = AttributeError"
        by (cases err) auto
      with Cons Inl EntityFolder show ?thesis by simp
    next
      case (Inr found)
      obtain entity sg_data1 h1 where found: "found = (entity, sg_data1, h1)"
        by (cases found)
      show ?thesis
      proof (cases "add_entries e self folder_obj path_fields entity")
        case (Inl err)
        with Cons.prems EntityFolder Inr found show ?thesis by simp
      next
        case inr: (Inr added)
        obtain primary new_secondary where added: "added = (primary, new_secondary)"
          by (cases added)
        have "entries_loop e sg self path_fields
                (sg_data1, entries @ [primary], secondary @ new_secondary, h1) chain
              = Inr (sg_data', entries', secondary', h')"
          using Cons.prems EntityFolder Inr found inr added by simp
        from Cons.IH [OF this] show ?thesis by simp
      qed
    qed
  qed
qed

lemma entries_loop_no_entry:
  "entries_loop e sg self path_fields (sg_data, entries, secondary, h) chain
     = Inr (sg_data', [], secondary', h') \<Longrightarrow> entries = [] \<and> secondary' = secondary"
  using entries_loop_grows [of e sg self path_fields sg_data entries secondary h chain
      sg_data' "[]" secondary' h']
  by simp

text \<open>
  C10. In path-to-record resolution a folder of the chain that is not an \<open>Entity\<close> (it
  has no method \<open>get_entity_from_fields\<close>) is skipped and contributes nothing: the result
  is the same with and without it. A chain in which no folder produces an entry gives
  \<open>None\<close> as the primary entry and the empty list; more generally, whenever the primary
  entry is \<open>None\<close> the list is empty.
\<close>

theorem C10_folders_without_entity:
  "entries_from_chain e sg self (xs @ OtherFolder # ys) path_fields h
     = entries_from_chain e sg self (xs @ ys) path_fields h \<and>
   entries_from_chain e sg self (replicate n OtherFolder) path_fields h = Inr (None, []) \<and>
   (\<forall>others. entries_from_chain e sg self chain path_fields h = Inr (None, others)
      \<longrightarrow> others = [])"
proof (intro conjI allI impI)
  show "entries_from_chain e sg self (xs @ OtherFolder # ys) path_fields h
     = entries_from_chain e sg self (xs @ ys) path_fields h"
    using entries_loop_other [of e sg self path_fields _ "rev ys" "rev xs"]
    by (simp add: entries_from_chain_def)
  show "entries_from_chain e sg self (replicate n OtherFolder) path_fields h = Inr (None, [])"
    by (simp add: entries_from_chain_def entries_loop_others)
next
  fix others
  assume r: "entries_from_chain e sg self chain path_fields h = Inr (None, others)"
  then obtain sg_data entries secondary h' where
    l: "entries_loop e sg self path_fields ([], [], [], h) (rev chain)
          = Inr (sg_data, entries, secondary, h')"
    by (auto simp: entries_from_chain_def split: sum.splits)
  with r have "entries = []" and o: "others = secondary"
    by (auto simp: entries_from_chain_def split: if_splits)
  with l entries_loop_no_entry [of e sg self path_fields "[]" "[]" "[]" h "rev chain" sg_data secondary h']
  show "others = []" by simp
qed

theorem C10_folders_without_entity_witness:
  "entries_from_chain sample_env sg_path shot_node [OtherFolder, OtherFolder] sample_path_fields []
     = Inr (None, []) \<and>
   entries_from_chain sample_env sg_path shot_node [EntityFolder shot_node, OtherFolder]
       sample_path_fields []
     = entries_from_chain sample_env sg_path shot_node [EntityFolder shot_node] sample_path_fields []"
  using C10_folders_without_entity [of sample_env sg_path shot_node "[EntityFolder shot_node]" "[]"
      sample_path_fields "[]" 2 "[OtherFolder, OtherFolder]"]
  by (simp add: numeral_2_eq_2)

text \<open>
  C3. The secondary entries of every folder of the chain are read with the link fields
  of \<open>self\<close>, the folder the method was called on (line 532), not with those of the folder
  being visited. For the Shot folder under a Sequence folder whose name expression uses
  the link field \<open>project\<close>, the Sequence contributes no secondary entry; and when it is
  the Shot folder that has a link field, looking that field up in the Sequence record
  raises \<open>KeyError\<close>.
\<close>

theorem C3_link_fields_of_self:
  "get_entries_from_path sample_env sg_path shot_node [EntityFolder sequence_node]
     sample_path_fields []
   = Inr (Some \<lparr>entry_entity = PDict [(''type'', PStr ''Shot''), (''id'', PInt 1),
                                        (''name'', PStr ''s010'')],
                 entry_path = ''/proj/s010'', entry_primary = True,
                 entry_metadata = config_metadata shot_node\<rparr>,
          [\<lparr>entry_entity = PDict [(''type'', PStr ''Sequence''), (''id'', PInt 7),
                                   (''name'', PStr ''seq'')],
            entry_path = ''/proj/seq'', entry_primary = True,
            entry_metadata = config_metadata shot_node\<rparr>]) \<and>
   get_shotgun_link_fields sequence_node = [''project''] \<and>
   get_entries_from_path sample_env sg_path linked_shot_node [EntityFolder plain_sequence_node]
     sample_path_fields []
   = Inl (KeyError ''sg_sequence'')"
  by (simp add: get_entries_from_path_def entries_from_chain_def get_entity_from_fields_def
        add_entries_def getitem_def dict_get_def fields_to_retrieve_def
        sample_env_def sg_path_def shot_node_def sequence_node_def linked_shot_node_def
        plain_sequence_node_def sample_path_fields_def shot_filters_def sequence_token_def
        resolve_filters_spec_def project_link_def)

subsection \<open>The working maps of top-down materialization\<close>

lemma create_folder_props:
  assumes run: "create_folder e self parent_path m H entity = Inr ((path, m'), events, H')"
    and valid: "\<forall>a \<in> snd ` set m. a < next_free H"
    and unshared: "distinct (map snd m)"
  shows "next_free H' = next_free H + length m"
    and "\<forall>a < next_free H. cells H' a = cells H a"
    and "map snd m' = [next_free H ..< next_free H + length m]"
    and "extend_sg_data e self (store_read H m) entity = Some (store_read H' m')"
proof -
  from run obtain name ent H1 a d where
    name: "generate_name self entity = Inr name" and
    ent: "entity = PDict ent" and
    copy: "deepcopy H [] m = (H1, m')" and
    a: "dict_get m' (sg_data_key_for_folder_obj self) = Some a" and
    d: "cells H1 a = PDict d" and
    H': "H' = H1\<lparr>cells := (cells H1)(a := PDict (dict_set (dict_update d ent)
           ''computed_name'' (PStr (replace_slash (os_path_sep e) name))))\<rparr>"
    by (auto simp: create_folder_def Let_def
          split: sum.splits pyval.splits prod.splits option.splits)
  note props = deepcopy_props [OF copy unshared]
  have refs: "map snd m' = [next_free H ..< next_free H + length m]"
    using props by simp
  have "a \<in> set (map snd m')" using dict_get_in_refs [OF a] by simp
  then have fresh: "next_free H \<le> a" unfolding refs by simp
  show "next_free H' = next_free H + length m" using props H' by simp
  show "\<forall>b < next_free H. cells H' b = cells H b" using props fresh H' by auto
  show "map snd m' = [next_free H ..< next_free H + length m]" by (rule refs)
  have dist: "distinct (map snd m')" unfolding refs by simp
  have read: "store_read H1 m' = store_read H m" by (rule deepcopy_read [OF copy unshared _ valid]) simp
  have "dict_get (store_read H m) (sg_data_key_for_folder_obj self) = Some (PDict d)"
    using a d read [symmetric] by (simp add: dict_get_store_read)
  moreover have "store_read H' m' =
      dict_set (store_read H m) (sg_data_key_for_folder_obj self)
        (PDict (dict_set (dict_update d ent) ''computed_name''
                  (PStr (replace_slash (os_path_sep e) name))))"
    unfolding H' using store_read_update [OF dist a] read by simp
  ultimately show "extend_sg_data e self (store_read H m) entity = Some (store_read H' m')"
    using name ent by (simp add: extend_sg_data_def)
qed

lemma create_folders_loop_props:
  "create_folders_loop e self parent_path m H entities = Inr (items_created, events, H') \<Longrightarrow>
   \<forall>a \<in> snd ` set m. a < next_free H \<Longrightarrow> distinct (map snd m) \<Longrightarrow>
   next_free H \<le> next_free H' \<and>
   (\<forall>a < next_free H. cells H' a = cells H a) \<and>
   list_all2 (\<lambda>entity item. extend_sg_data e self (store_read H m) entity
                              = Some (store_read H' (snd item))) entities items_created \<and>
   distinct (refs_of items_created) \<and>
   (\<forall>a \<in> set (refs_of items_created). next_free H \<le> a \<and> a < next_free H')"
proof (induction entities arbitrary: H items_created events)
  case Nil
  then show ?case by (simp add: refs_of_def)
next
  case (Cons entity entities)
  from Cons.prems(1) obtain item ev1 H1 rest ev2 where
    step: "create_folder e self parent_path m H entity = Inr (item, ev1, H1)" and
    loop: "create_folders_loop e self parent_path m H1 entities = Inr (rest, ev2, H')" and
    items: "items_created = item # rest"
    by (auto split: sum.splits prod.splits)
  obtain path m' where item: "item = (path, m')" by (cases item)
  note s = create_folder_props [OF step [unfolded item] Cons.prems(2,3)]
  have valid1: "\<forall>a \<in> snd ` set m. a < next_free H1"
    using Cons.prems(2) s(1) by auto
  from Cons.IH [OF loop valid1 Cons.prems(3)] have ih:
    "next_free H1 \<le> next_free H'"
    "\<forall>a < next_free H1. cells H' a = cells H1 a"
    "list_all2 (\<lambda>entity item. extend_sg_data e self (store_read H1 m) entity
                              = Some (store_read H' (snd item))) entities rest"
    "distinct (refs_of rest)"
    "\<forall>a \<in> set (refs_of rest). next_free H1 \<le> a \<and> a < next_free H'"
    by auto
  have same: "store_read H1 m = store_read H m"
    using Cons.prems(2) s(2) by (intro store_read_cong) auto
  have "store_read H' m' = store_read H1 m'"
    using ih(2) s(1,3) by (intro store_read_cong) (auto simp flip: set_map)
  then have first: "extend_sg_data e self (store_read H m) entity = Some (store_read H' m')"
    using s(4) by simp
  have frame: "\<forall>a < next_free H. cells H' a = cells H a"
    using ih(2) s(1,2) by auto
  have refs: "refs_of items_created = map snd m' @ refs_of rest"
    by (simp add: refs_of_def items item)
  have dist: "distinct (refs_of items_created)"
    unfolding refs using ih(4,5) s(1,3) by (auto simp: s(3))
  have fresh: "\<forall>a \<in> set (refs_of items_created). next_free H \<le> a \<and> a < next_free H'"
    unfolding refs using ih(1,5) s(1,3) by (auto simp: s(3))
  show ?case
    using ih(1,3) s(1) first frame dist fresh same by (simp add: items item)
qed

text \<open>
  When the method returns: it has changed no object that existed when it was called, so
  the working map it received reads as before; every working map it returns is made of
  new objects, none of them shared with another returned map, and reads as the input
  map with, under the key of this level, the record held there merged with the fields
  of its own candidate and the key \<open>computed_name\<close>. (For an input map whose levels are
  objects of their own.)
\<close>

lemma create_folders_impl_isolation:
  assumes "\<forall>a \<in> snd ` set sg_data. a < next_free H"
    and "distinct (map snd sg_data)"
    and "get_entities e sg self (store_read H sg_data) h = Inr (entities, h')"
    and "create_folders_impl e sg self parent_path sg_data H h = Inr (items_created, events, H', h'')"
  shows "(\<forall>a < next_free H. cells H' a = cells H a) \<and>
         store_read H' sg_data = store_read H sg_data \<and>
         length items_created = length entities \<and>
         (\<forall>i < length items_created.
            extend_sg_data e self (store_read H sg_data) (entities ! i)
              = Some (store_read H' (snd (items_created ! i)))) \<and>
         distinct (refs_of items_created) \<and>
         (\<forall>a \<in> set (refs_of items_created). next_free H \<le> a)"
proof -
  from assms(3,4) have loop:
    "create_folders_loop e self parent_path sg_data H entities = Inr (items_created, events, H')"
    by (auto simp: create_folders_impl_def split: sum.splits prod.splits)
  note p = create_folders_loop_props [OF loop assms(1,2)]
  have "store_read H' sg_data = store_read H sg_data"
    using p assms(1) by (intro store_read_cong) auto
  with p show ?thesis
    by (auto simp: list_all2_conv_all_nth)
qed

lemma sample_store_read: "store_read sample_store sample_sg_data_ref = partial_shot_data"
  by (simp add: store_read_def sample_store_def sample_sg_data_ref_def partial_shot_data_def)

lemma sample_get_entities:
  "get_entities sample_env sg_two_shots shot_node partial_shot_data [] =
     Inr ([PDict [(''type'', PStr ''Shot''), (''id'', PInt 1), (''code'', PStr ''s010'')],
           PDict [(''type'', PStr ''Shot''), (''id'', PInt 2), (''code'', PStr ''s020'')]],
          [Find ''Shot''
            (resolved_shot_filters\<lparr>conditions := conditions resolved_shot_filters @ [id_condition (PInt 1)]\<rparr>)
            {''code''}])"
proof -
  have a: "resolve_shotgun_filters sample_env (filters shot_node) partial_shot_data = Inr resolved_shot_filters"
    by (rule resolve_shot_filters) (simp add: dict_get_def partial_shot_data_def)
  have b: "add_current_user sample_env shot_node partial_shot_data = Inr partial_shot_data"
    by (simp add: add_current_user_def shot_node_simps)
  show ?thesis
    unfolding get_entities_def a b shot_fields_to_retrieve
    by (simp add: shot_node_simps dict_get_def partial_shot_data_def sg_two_shots_def)
qed


lemma getitem_contains: "dict_contains d k \<Longrightarrow> \<exists>v. getitem d k = Inr v"
  by (auto simp: dict_contains_def getitem_def dict_get_def)

lemma register_secondary_entities_returns:
  "list_all (dict_contains entity) lfs \<Longrightarrow>
   \<exists>events. register_secondary_entities self path entity lfs = Inr events"
proof (induction lfs)
  case Nil
  then show ?case by simp
next
  case (Cons lf lfs)
  then obtain v events where "getitem entity lf = Inr v"
    "register_secondary_entities self path entity lfs = Inr events"
    using getitem_contains [of entity lf] by auto
  then show ?case by simp
qed

lemma create_folder_returns:
  assumes usable: "usable_candidate e self entity"
    and mine: "dict_get (store_read H m) (sg_data_key_for_folder_obj self) = Some (PDict d)"
    and valid: "\<forall>a \<in> snd ` set m. a < next_free H"
    and unshared: "distinct (map snd m)"
  shows "\<exists>r. create_folder e self parent_path m H entity = Inr r"
proof -
  from usable obtain ent name where
    ent: "entity = PDict ent" and name: "generate_name self entity = Inr name" and
    has: "dict_contains ent (get_sg_entity_name_field e (PStr (entity_type self)))"
      "dict_contains ent ''id''" "list_all (dict_contains ent) (get_shotgun_link_fields self)"
    by (auto simp: usable_candidate_def split: pyval.splits sum.splits)
  obtain name_value entity_id where
    fields: "getitem ent (get_sg_entity_name_field e (PStr (entity_type self))) = Inr name_value"
      "getitem ent ''id'' = Inr entity_id"
    using getitem_contains [OF has(1)] getitem_contains [OF has(2)] by auto
  obtain registered where
    reg: "register_secondary_entities self
            (os_path_join e parent_path (replace_slash (os_path_sep e) name)) ent
            (get_shotgun_link_fields self) = Inr registered"
    using register_secondary_entities_returns [OF has(3)] by blast
  obtain H1 m' where copy: "deepcopy H [] m = (H1, m')"
    by (cases "deepcopy H [] m")
  have "store_read H1 m' = store_read H m"
    by (rule deepcopy_read [OF copy unshared _ valid]) simp
  with mine have "map_option (cells H1) (dict_get m' (sg_data_key_for_folder_obj self))
      = Some (PDict d)"
    by (simp add: dict_get_store_read [symmetric])
  then obtain a where a: "dict_get m' (sg_data_key_for_folder_obj self) = Some a"
    "cells H1 a = PDict d"
    by auto
  show ?thesis
    using name by (simp add: create_folder_def ent fields reg copy a Let_def)
qed

lemma create_folders_loop_returns:
  "list_all (usable_candidate e self) entities \<Longrightarrow>
   dict_get (store_read H m) (sg_data_key_for_folder_obj self) = Some (PDict d) \<Longrightarrow>
   \<forall>a \<in> snd ` set m. a < next_free H \<Longrightarrow> distinct (map snd m) \<Longrightarrow>
   \<exists>r. create_folders_loop e self parent_path m H entities = Inr r"
proof (induction entities arbitrary: H)
  case Nil
  then show ?case by simp
next
  case (Cons entity entities)
  from Cons.prems have "usable_candidate e self entity" by simp
  from create_folder_returns [OF this Cons.prems(2,3,4)]
  obtain path m' events H1 where
    step: "create_folder e self parent_path m H entity = Inr ((path, m'), events, H1)"
    by (metis prod_cases3 surj_pair)
  note s = create_folder_props [OF step Cons.prems(3,4)]
  have valid1: "\<forall>a \<in> snd ` set m. a < next_free H1"
    using Cons.prems(3) s(1) by auto
  have "store_read H1 m = store_read H m"
    using Cons.prems(3) s(2) by (intro store_read_cong) auto
  with Cons.prems(2) have mine1:
    "dict_get (store_read H1 m) (sg_data_key_for_folder_obj self) = Some (PDict d)"
    by simp
  from Cons.prems(1) have "list_all (usable_candidate e self) entities" by simp
  from Cons.IH [OF this mine1 valid1 Cons.prems(4)]
  obtain r where "create_folders_loop e self parent_path m H1 entities = Inr r" by blast
  with step show ?case by (cases r) simp
qed

lemma create_folders_impl_isolation_sample:
  "(case create_folders_impl sample_env sg_two_shots shot_node ''/proj/seq''
           sample_sg_data_ref sample_store [] of
      Inl err \<Rightarrow> False
    | Inr (items_created, events, H', h') \<Rightarrow>
        map (\<lambda>item. store_read H' (snd item)) items_created =
          [[(''Sequence'', sequence_record),
            (''Shot'', PDict [(''type'', PStr ''Shot''), (''id'', PInt 1), (''code'', PStr ''s010''),
                             (''computed_name'', PStr ''s010'')])],
           [(''Sequence'', sequence_record),
            (''Shot'', PDict [(''type'', PStr ''Shot''), (''id'', PInt 2), (''code'', PStr ''s020''),
                             (''computed_name'', PStr ''s020'')])]] \<and>
        store_read H' sample_sg_data_ref = partial_shot_data \<and>
        distinct (refs_of items_created))"
proof -
  have usable: "list_all (usable_candidate sample_env shot_node)
      [PDict [(''type'', PStr ''Shot''), (''id'', PInt 1), (''code'', PStr ''s010'')],
       PDict [(''type'', PStr ''Shot''), (''id'', PInt 2), (''code'', PStr ''s020'')]]"
    by (simp add: usable_candidate_def shot_node_def sample_env_def dict_contains_def dict_get_def)
  have mine: "dict_get (store_read sample_store sample_sg_data_ref)
                 (sg_data_key_for_folder_obj shot_node)
               = Some (PDict [(''type'', PStr ''Shot''), (''id'', PInt 1)])"
    by (simp add: sample_store_read partial_shot_data_def dict_get_def shot_node_simps)
  have valid: "\<forall>a \<in> snd ` set sample_sg_data_ref. a < next_free sample_store"
    by (simp add: sample_sg_data_ref_def sample_store_def)
  have unshared: "distinct (map snd sample_sg_data_ref)"
    by (simp add: sample_sg_data_ref_def)
  have "\<exists>r. create_folders_impl sample_env sg_two_shots shot_node ''/proj/seq''
           sample_sg_data_ref sample_store [] = Inr r"
    using create_folders_loop_returns [OF usable mine valid unshared, of "''/proj/seq''"]
    unfolding create_folders_impl_def sample_store_read sample_get_entities
    by (auto split: prod.splits)
  then obtain items_created events H' h' where run:
    "create_folders_impl sample_env sg_two_shots shot_node ''/proj/seq''
           sample_sg_data_ref sample_store [] = Inr (items_created, events, H', h')"
    by (metis prod_cases4)
  note c7 = create_folders_impl_isolation [OF valid unshared sample_get_entities [folded sample_store_read] run]
  from c7 obtain item0 item1 where items: "items_created = [item0, item1]"
    by (auto simp: length_Suc_conv)
  have x: "extend_sg_data sample_env shot_node partial_shot_data
             (PDict [(''type'', PStr ''Shot''), (''id'', PInt 1), (''code'', PStr ''s010'')])
           = Some [(''Sequence'', sequence_record),
                   (''Shot'', PDict [(''type'', PStr ''Shot''), (''id'', PInt 1),
                                    (''code'', PStr ''s010''), (''computed_name'', PStr ''s010'')])]"
    "extend_sg_data sample_env shot_node partial_shot_data
             (PDict [(''type'', PStr ''Shot''), (''id'', PInt 2), (''code'', PStr ''s020'')])
           = Some [(''Sequence'', sequence_record),
                   (''Shot'', PDict [(''type'', PStr ''Shot''), (''id'', PInt 2),
                                    (''code'', PStr ''s020''), (''computed_name'', PStr ''s020'')])]"
    by (simp_all add: extend_sg_data_def shot_node_def sample_env_def partial_shot_data_def
          dict_get_def dict_update_def replace_slash_def)
  have "store_read H' (snd item0) = [(''Sequence'', sequence_record),
            (''Shot'', PDict [(''type'', PStr ''Shot''), (''id'', PInt 1), (''code'', PStr ''s010''),
                             (''computed_name'', PStr ''s010'')])]"
    using c7 items x(1) by (auto simp: sample_store_read)
  moreover have "store_read H' (snd item1) = [(''Sequence'', sequence_record),
            (''Shot'', PDict [(''type'', PStr ''Shot''), (''id'', PInt 2), (''code'', PStr ''s020''),
                             (''computed_name'', PStr ''s020'')])]"
    using c7 items x(2) by (auto simp: sample_store_read)
  ultimately show ?thesis
    using c7 items by (simp add: run sample_store_read)
qed

text \<open>
  With no record for the level in the input map the method returns no working map: line
  208 reads \<open>my_sg_data[my_sg_data_key]\<close> in a copy of the map the method received, not in
  the copy \<open>__get_entities\<close> worked on, so the first candidate raises \<open>KeyError\<close>.
\<close>

lemma create_folder_without_record:
  assumes "dict_get sg_data (sg_data_key_for_folder_obj self) = None"
  shows "\<exists>err. create_folder e self parent_path sg_data H entity = Inl err"
proof -
  obtain H1 my_sg_data where copy: "deepcopy H [] sg_data = (H1, my_sg_data)"
    by (cases "deepcopy H [] sg_data")
  have "map fst my_sg_data = map fst sg_data" by (rule deepcopy_keys [OF copy])
  with assms have "dict_get my_sg_data (sg_data_key_for_folder_obj self) = None"
    by (simp add: dict_get_def map_of_eq_None_iff flip: set_map)
  then show ?thesis
    by (simp add: create_folder_def copy Let_def split: sum.splits pyval.splits)
qed

lemma create_folders_impl_without_record:
  assumes "dict_get sg_data (sg_data_key_for_folder_obj self) = None"
    and "create_folders_impl e sg self parent_path sg_data H h = Inr (items_created, events, H', h')"
  shows "items_created = []"
proof -
  from assms(2) obtain entities where
    loop: "create_folders_loop e self parent_path sg_data H entities = Inr (items_created, events, H')"
    by (auto simp: create_folders_impl_def split: sum.splits prod.splits)
  show ?thesis
  proof (cases entities)
    case Nil
    with loop show ?thesis by simp
  next
    case (Cons entity rest)
    with loop create_folder_without_record [OF assms(1), of e parent_path H entity]
    show ?thesis by (auto split: sum.splits)
  qed
qed



end
